theory Spec2Isabelle
  imports Main
begin

section \<open>Values exchanged with the validation engine\<close>

text \<open>
  The orchestration in \<^verbatim>\<open>validator.mjs\<close> drives DocHub's loader and rule engine and
  folds what they report into one report object. An issue item, a rule result
  (\<^verbatim>\<open>{id, title, items, error}\<close>) and a load-time diagnostic taken from
  \<^verbatim>\<open>cache.errors\<close> are plain objects; the fields the code reads are kept, a field
  that may be absent is an \<open>option\<close>.
\<close>

record item =
  uid :: string
  ititle :: string
  location :: string

record ruleResult =
  rid :: string
  rtitle :: string
  ritems :: "item list option"
  rerror :: "string option"

record diagnostic =
  did :: string
  dmessage :: string
  dkind :: string

record ruleDescriptor =
  vtitle :: string
  vsource :: string

text \<open>
  The merged manifest, as far as the orchestration looks into it: \<^verbatim>\<open>manifest.functions\<close>
  and \<^verbatim>\<open>manifest?.rules?.validators\<close>, an object whose keys are the rule ids
  (\<open>None\<close> when \<^verbatim>\<open>rules\<close> or \<^verbatim>\<open>validators\<close> is missing).
\<close>

record manifest =
  manifestFunctions :: "string list option"
  rulesValidators :: "(string \<times> ruleDescriptor) list option"

text \<open>A thrown \<^verbatim>\<open>Error\<close>: its message and its stack.\<close>

datatype exn = JsError (message: string) (stack: string)

text \<open>
  A call either returns, throws, or never settles (an awaited promise that stays pending,
  a call that does not come back).
\<close>

datatype 'a outcome = Returns 'a | Throws exn | Never

section \<open>Effects on the session\<close>

text \<open>
  Everything the code does to the world outside its own variables, one constructor per
  statement of the source: the globals and the environment variable it writes, the modules
  it imports, the calls into the parser, the cache and the engine, the timer it starts.
  Console output is not modelled; \<^verbatim>\<open>verbose\<close> changes nothing else but the \<^verbatim>\<open>stack\<close>
  field of the critical-error problem.
\<close>

datatype effect =
    SetGlobalPaths string
  | SetGlobalListeners
  | SetGlobalRoles
  | SetEnvRootManifest string
  | ImportModule string
  | AssignParserCache
  | AssignParserCallbacks
  | CacheErrorClear
  | ParserClean
  | ParserStartLoad
  | ParserImport string
  | ParserCheckAwaitedPackages
  | ParserCheckLoaded
  | ParserStopLoad
  | Entities
  | JsonataFunctions
  | AssignCustomFunctions
  | DatasetsHelper
  | Validators
  | SetTimeout nat

text \<open>
  A piece of the program yields an outcome together with the effects it performed, in
  order. \<open>andThen\<close> is sequencing: what follows a statement runs only when the statement
  returned. \<open>tryCatch\<close> is \<^verbatim>\<open>try { ... } catch (error) { ... }\<close>.
\<close>

type_synonym 'a proc = "'a outcome \<times> effect list"

definition ret :: "'a \<Rightarrow> 'a proc" where
  "ret x = (Returns x, [])"

definition throw :: "exn \<Rightarrow> 'a proc" where
  "throw e = (Throws e, [])"

definition perform :: "effect \<Rightarrow> 'a outcome \<Rightarrow> 'a proc" where
  "perform eff out = (out, [eff])"

definition andThen :: "'a proc \<Rightarrow> ('a \<Rightarrow> 'b proc) \<Rightarrow> 'b proc" where
  "andThen m f =
     (case fst m of
        Returns x \<Rightarrow> (fst (f x), snd m @ snd (f x))
      | Throws e \<Rightarrow> (Throws e, snd m)
      | Never \<Rightarrow> (Never, snd m))"

definition tryCatch :: "'a proc \<Rightarrow> (exn \<Rightarrow> 'a proc) \<Rightarrow> 'a proc" where
  "tryCatch m h =
     (case fst m of
        Throws e \<Rightarrow> (fst (h e), snd m @ snd (h e))
      | Returns x \<Rightarrow> m
      | Never \<Rightarrow> m)"

section \<open>The world around one run\<close>

text \<open>
  The rule engine calls back once per rule, through the \<^verbatim>\<open>success\<close> or the \<^verbatim>\<open>reject\<close>
  argument it was given. DocHub's engine reports from promise continuations, so every
  completion arrives after the call \<^verbatim>\<open>validators(...)\<close> has returned; \<open>arrival\<close> is the
  time of the completion in milliseconds after the timer was started.
\<close>

datatype callback = SuccessCallback | RejectCallback

record completion =
  arrival :: nat
  via :: callback
  payload :: ruleResult

text \<open>
  What the file system, Node and DocHub answer during one run. \<open>cacheErrors\<close> is
  \<^verbatim>\<open>cache.errors\<close> with its entries in the order \<^verbatim>\<open>Object.keys\<close> enumerates them;
  \<open>completions\<close> are the engine's completions in the order the event loop delivers them.
\<close>

record world =
  cwd :: string
  dirname :: string
  pathResolve :: "string list \<Rightarrow> string"
  existsSync :: "string \<Rightarrow> bool"
  envRootManifest :: "string option"
  stackTrace :: string
  importModule :: "string \<Rightarrow> unit outcome"
  cacheErrorClear :: "unit outcome"
  parserClean :: "unit outcome"
  parserStartLoad :: "unit outcome"
  parserImport :: "string \<Rightarrow> unit outcome"
  parserCheckAwaitedPackages :: "unit outcome"
  parserCheckLoaded :: "unit outcome"
  parserStopLoad :: "unit outcome"
  parserManifest :: "manifest option"
  entities :: "unit outcome"
  cacheErrors :: "(string \<times> diagnostic) list option"
  jsonataFunctions :: "unit outcome"
  datasetsHelper :: "unit outcome"
  validators :: "unit outcome"
  completions :: "completion list"

section \<open>The validation report\<close>

record manifestInfo =
  loaded :: bool
  path :: string
  workspace :: string

record criticalProblem =
  cid :: string
  ctitle :: string
  cerror :: string
  cstack :: "string option"

datatype problem =
    LoadingError diagnostic
  | ValidatorResult ruleResult
  | CriticalError criticalProblem

record stats =
  totalIssues :: nat
  loadingErrors :: nat
  validationErrors :: nat

record report =
  success :: bool
  manifest :: manifestInfo
  problems :: "problem list"
  stats :: stats

record options =
  opt_workspace :: "string option"
  opt_rootManifest :: "string option"
  opt_verbose :: "bool option"

section \<open>The validator engine: callback, timer, promise\<close>

text \<open>
  The three variables the promise executor closes over: \<^verbatim>\<open>validatorResults\<close>,
  \<^verbatim>\<open>completedCount\<close>, and whether \<^verbatim>\<open>resolve()\<close> has been called.
\<close>

record engine =
  validatorResults :: "ruleResult list"
  completedCount :: nat
  resolved :: bool

definition initialEngine :: engine where
  "initialEngine = \<lparr>validatorResults = [], completedCount = 0, resolved = False\<rparr>"

definition resolve :: "engine \<Rightarrow> engine" where
  "resolve s = s\<lparr>resolved := True\<rparr>"

definition onValidatorComplete :: "nat \<Rightarrow> ruleResult \<Rightarrow> engine \<Rightarrow> engine" where
  "onValidatorComplete validatorCount validator s =
     (let s1 = s\<lparr>validatorResults := validatorResults s @ [validator]\<rparr>;
          s2 = s1\<lparr>completedCount := completedCount s1 + 1\<rparr>
      in if completedCount s2 \<ge> validatorCount then resolve s2 else s2)"

definition onTimeout :: "nat \<Rightarrow> engine \<Rightarrow> engine" where
  "onTimeout validatorCount s =
     (if completedCount s < validatorCount then resolve s else s)"

text \<open>
  The event loop after the executor has run: the engine's completions and the one timer.
  \<^verbatim>\<open>validators(datasets, manifest, onValidatorComplete, onValidatorComplete)\<close> hands the
  same function over as success and as reject callback.
\<close>

datatype event = Completion callback ruleResult | TimerFired

fun deliver :: "nat \<Rightarrow> event \<Rightarrow> engine \<Rightarrow> engine" where
  "deliver n (Completion SuccessCallback v) s = onValidatorComplete n v s"
| "deliver n (Completion RejectCallback v) s = onValidatorComplete n v s"
| "deliver n TimerFired s = onTimeout n s"

text \<open>
  A timer started with delay \<open>d\<close> fires after the completions that arrive earlier than
  \<open>d\<close> and before every later one.
\<close>

fun timeline :: "nat \<Rightarrow> completion list \<Rightarrow> event list" where
  "timeline d [] = [TimerFired]"
| "timeline d (c # cs) =
     (if arrival c < d then Completion (via c) (payload c) # timeline d cs
      else TimerFired # map (\<lambda>c. Completion (via c) (payload c)) (c # cs))"

text \<open>
  \<^verbatim>\<open>await validationPromise\<close>: the continuation runs as soon as the promise is resolved;
  events are delivered one by one until then, and what the event loop delivers later finds
  nobody waiting. The engine reports each rule once, so when the last of the rules
  resolves the promise no further completion is left in the same turn of the loop. A
  promise that no event resolves stays pending.
\<close>

fun awaitResolved :: "nat \<Rightarrow> event list \<Rightarrow> engine \<Rightarrow> engine outcome" where
  "awaitResolved n [] s = (if resolved s then Returns s else Never)"
| "awaitResolved n (e # es) s =
     (if resolved s then Returns s else awaitResolved n es (deliver n e s))"

text \<open>Delivering a whole list of events, whether or not anyone is waiting.\<close>

fun deliverAll :: "nat \<Rightarrow> event list \<Rightarrow> engine \<Rightarrow> engine" where
  "deliverAll n [] s = s"
| "deliverAll n (e # es) s = deliverAll n es (deliver n e s)"

definition timeoutMs :: nat where
  "timeoutMs = 10000"

definition validationPromise :: "world \<Rightarrow> nat \<Rightarrow> engine proc" where
  "validationPromise w validatorCount =
     (if validatorCount = 0 then ret (resolve initialEngine)
      else
        andThen (perform Validators (validators w)) (\<lambda>_.
        andThen (perform (SetTimeout timeoutMs) (Returns ())) (\<lambda>_.
        (awaitResolved validatorCount (timeline timeoutMs (completions w)) initialEngine, []))))"

section \<open>The orchestration: \<^verbatim>\<open>validateManifest\<close>\<close>

definition initializeDocHubEnvironment :: "world \<Rightarrow> string \<Rightarrow> unit proc" where
  "initializeDocHubEnvironment w workspaceDir =
     (let resolvedWorkspace = pathResolve w [workspaceDir] in
      andThen (perform (SetGlobalPaths resolvedWorkspace) (Returns ())) (\<lambda>_.
      andThen (perform SetGlobalListeners (Returns ())) (\<lambda>_.
      andThen (perform SetGlobalRoles (Returns ())) (\<lambda>_.
      if envRootManifest w = None \<or> envRootManifest w = Some []
      then perform (SetEnvRootManifest ''dochub.yaml'') (Returns ())
      else ret ()))))"

definition possiblePaths :: "world \<Rightarrow> string list" where
  "possiblePaths w =
     [pathResolve w [dirname w, ''../dochub''],
      pathResolve w [dirname w, ''../node_modules/dochub''],
      pathResolve w [dirname w, ''../../DocHub'']]"

definition dochubNotFound :: string where
  "dochubNotFound =
     ''DocHub not found. Please ensure DocHub is available via:'' @ [CHR 0x0A] @
     ''  - Git submodule: git submodule update --init --recursive'' @ [CHR 0x0A] @
     ''  - Sibling directory: ../DocHub'' @ [CHR 0x0A] @
     ''  - Symlink: ln -s /path/to/DocHub dochub''"

definition getDocHubPath :: "world \<Rightarrow> string proc" where
  "getDocHubPath w =
     (case find (existsSync w) (possiblePaths w) of
        Some dochubPath \<Rightarrow> ret dochubPath
      | None \<Rightarrow> throw (JsError dochubNotFound (stackTrace w)))"

text \<open>The seven modules imported from the DocHub installation, in the order of the source.\<close>

definition dochubModules :: "string list" where
  "dochubModules =
     [''/src/global/manifest/parser.mjs'',
      ''/src/backend/storage/cache.mjs'',
      ''/src/global/rules/validators.mjs'',
      ''/src/backend/helpers/datasets.mjs'',
      ''/src/backend/entities/entities.mjs'',
      ''/src/global/jsonata/driver.mjs'',
      ''/src/global/jsonata/functions.mjs'']"

fun importAll :: "world \<Rightarrow> string list \<Rightarrow> unit proc" where
  "importAll w [] = ret ()"
| "importAll w (p # ps) =
     andThen (perform (ImportModule p) (importModule w p)) (\<lambda>_. importAll w ps)"

text \<open>The six awaited parser calls that open the guarded block.\<close>

definition loadManifest :: "world \<Rightarrow> unit proc" where
  "loadManifest w =
     andThen (perform ParserClean (parserClean w)) (\<lambda>_.
     andThen (perform ParserStartLoad (parserStartLoad w)) (\<lambda>_.
     andThen (perform (ParserImport ''file:///$root$'') (parserImport w ''file:///$root$'')) (\<lambda>_.
     andThen (perform ParserCheckAwaitedPackages (parserCheckAwaitedPackages w)) (\<lambda>_.
     andThen (perform ParserCheckLoaded (parserCheckLoaded w)) (\<lambda>_.
     perform ParserStopLoad (parserStopLoad w))))))"

text \<open>
  \<^verbatim>\<open>Object.keys(cache.errors || {}).map((key) => cache.errors[key])\<close>: the values of
  \<^verbatim>\<open>cache.errors\<close> in key order.
\<close>

definition loadingProblems :: "world \<Rightarrow> diagnostic list" where
  "loadingProblems w = (case cacheErrors w of None \<Rightarrow> [] | Some errs \<Rightarrow> map snd errs)"

text \<open>
  \<^verbatim>\<open>manifest.functions || {}\<close> has no \<^verbatim>\<open>?.\<close>: on a missing manifest the property read
  throws a TypeError.
\<close>

definition readFunctions :: "world \<Rightarrow> manifest option \<Rightarrow> string list proc" where
  "readFunctions w m =
     (case m of
        None \<Rightarrow> throw (JsError ''Cannot read properties of undefined (reading 'functions')'' (stackTrace w))
      | Some mf \<Rightarrow> ret (case manifestFunctions mf of None \<Rightarrow> [] | Some fs \<Rightarrow> fs))"

text \<open>\<^verbatim>\<open>Object.keys(manifest?.rules?.validators || {}).length\<close>\<close>

definition countValidators :: "manifest option \<Rightarrow> nat" where
  "countValidators m =
     (case m of
        None \<Rightarrow> 0
      | Some mf \<Rightarrow> (case rulesValidators mf of None \<Rightarrow> 0 | Some vs \<Rightarrow> length vs))"

definition startsWith :: "string \<Rightarrow> string \<Rightarrow> bool" where
  "startsWith s p = (take (length p) s = p)"

text \<open>
  The filter predicate
  \<^verbatim>\<open>v.items && v.items.length > 0 && !v.id.startsWith('$error')\<close>.
\<close>

definition realValidationIssue :: "ruleResult \<Rightarrow> bool" where
  "realValidationIssue v =
     ((case ritems v of None \<Rightarrow> False | Some xs \<Rightarrow> length xs > 0)
      \<and> \<not> startsWith (rid v) ''$error'')"

definition tryBlock :: "world \<Rightarrow> bool \<Rightarrow> string \<Rightarrow> string \<Rightarrow> report proc" where
  "tryBlock w verbose workspaceDir manifestPath =
     andThen (loadManifest w) (\<lambda>_.
     let manifest = parserManifest w in
     andThen (perform Entities (entities w)) (\<lambda>_.
     let problems = loadingProblems w in
     andThen (readFunctions w manifest) (\<lambda>fs.
     andThen (perform JsonataFunctions (jsonataFunctions w)) (\<lambda>_.
     andThen (perform AssignCustomFunctions (Returns ())) (\<lambda>_.
     andThen (perform DatasetsHelper (datasetsHelper w)) (\<lambda>_.
     let validatorCount = countValidators manifest in
     andThen (validationPromise w validatorCount) (\<lambda>eng.
     let allProblems = map LoadingError problems @ map ValidatorResult (validatorResults eng);
         realValidationIssues = filter realValidationIssue (validatorResults eng)
     in ret \<lparr>success = (length realValidationIssues = 0),
             manifest = \<lparr>loaded = True, path = manifestPath, workspace = workspaceDir\<rparr>,
             problems = allProblems,
             stats = \<lparr>totalIssues = length allProblems,
                      loadingErrors = length problems,
                      validationErrors = length realValidationIssues\<rparr>\<rparr>)))))))"

definition catchBlock :: "bool \<Rightarrow> string \<Rightarrow> string \<Rightarrow> exn \<Rightarrow> report proc" where
  "catchBlock verbose workspaceDir manifestPath error =
     ret \<lparr>success = False,
          manifest = \<lparr>loaded = False, path = manifestPath, workspace = workspaceDir\<rparr>,
          problems = [CriticalError \<lparr>cid = ''critical-error'',
                                     ctitle = ''Critical Error'',
                                     cerror = message error,
                                     cstack = (if verbose then Some (stack error) else None)\<rparr>],
          stats = \<lparr>totalIssues = 1, loadingErrors = 1, validationErrors = 0\<rparr>\<rparr>"

text \<open>
  What runs between the two existence checks and the guarded block: globals, environment
  variable, locating DocHub, importing its modules, wiring the parser, clearing the error
  cache. None of it is inside \<^verbatim>\<open>try\<close>.
\<close>

definition startSession :: "world \<Rightarrow> string \<Rightarrow> string \<Rightarrow> unit proc" where
  "startSession w workspaceDir rootManifest =
     andThen (initializeDocHubEnvironment w workspaceDir) (\<lambda>_.
     andThen (perform (SetEnvRootManifest rootManifest) (Returns ())) (\<lambda>_.
     andThen (getDocHubPath w) (\<lambda>dochubPath.
     andThen (importAll w (map (\<lambda>m. dochubPath @ m) dochubModules)) (\<lambda>_.
     andThen (perform AssignParserCache (Returns ())) (\<lambda>_.
     andThen (perform AssignParserCallbacks (Returns ())) (\<lambda>_.
     perform CacheErrorClear (cacheErrorClear w)))))))"

definition workspaceOf :: "world \<Rightarrow> options \<Rightarrow> string" where
  "workspaceOf w opts = (case opt_workspace opts of None \<Rightarrow> cwd w | Some d \<Rightarrow> d)"

definition rootManifestOf :: "options \<Rightarrow> string" where
  "rootManifestOf opts = (case opt_rootManifest opts of None \<Rightarrow> ''dochub.yaml'' | Some f \<Rightarrow> f)"

definition verboseOf :: "options \<Rightarrow> bool" where
  "verboseOf opts = (case opt_verbose opts of None \<Rightarrow> False | Some b \<Rightarrow> b)"

definition validateManifest :: "world \<Rightarrow> options \<Rightarrow> report proc" where
  "validateManifest w opts =
     (let workspace = workspaceOf w opts;
          rootManifest = rootManifestOf opts;
          verbose = verboseOf opts;
          workspaceDir = pathResolve w [workspace];
          manifestPath = pathResolve w [workspaceDir, rootManifest]
      in if \<not> existsSync w workspaceDir
         then throw (JsError (''Workspace directory not found: '' @ workspaceDir) (stackTrace w))
         else if \<not> existsSync w manifestPath
         then throw (JsError (''Root manifest not found: '' @ manifestPath) (stackTrace w))
         else
           andThen (startSession w workspaceDir rootManifest) (\<lambda>_.
           tryCatch (tryBlock w verbose workspaceDir manifestPath)
                    (catchBlock verbose workspaceDir manifestPath)))"

section \<open>The command line: exit codes\<close>

record cliOptions =
  cli_workspace :: string
  cli_root :: string
  cli_format :: string
  cli_color :: bool
  cli_verbose :: bool
  cli_pretty :: bool
  cli_output :: "string option"

text \<open>
  The rendering of a report (\<^verbatim>\<open>formatter.mjs\<close>) builds a string and decides nothing; it
  is a parameter here, as is the file system call that writes the output file.
\<close>

record shell =
  format :: "report \<Rightarrow> string \<Rightarrow> string"
  writeFileSync :: "string \<Rightarrow> string \<Rightarrow> unit outcome"

definition toLowerCase :: "string \<Rightarrow> string" where
  "toLowerCase s =
     map (\<lambda>c. let n = (of_char c :: nat) in
               if 65 \<le> n \<and> n \<le> 90 then char_of (n + 32) else c) s"

text \<open>
  The action of the program, up to \<^verbatim>\<open>process.exit\<close>: the exit code, or \<open>None\<close> when the
  process never gets there.
\<close>

definition validateOptions :: "cliOptions \<Rightarrow> options" where
  "validateOptions options =
     \<lparr>opt_workspace = Some (cli_workspace options),
      opt_rootManifest = Some (cli_root options),
      opt_verbose = Some (cli_verbose options)\<rparr>"

text \<open>
  \<^verbatim>\<open>if (options.output) fs.writeFileSync(...) else console.log(output)\<close>; the empty
  string is falsy.
\<close>

definition writeOutput :: "shell \<Rightarrow> cliOptions \<Rightarrow> string \<Rightarrow> unit outcome" where
  "writeOutput sh options output =
     (case cli_output options of
        Some file \<Rightarrow> if file = [] then Returns () else writeFileSync sh file output
      | None \<Rightarrow> Returns ())"

definition action :: "shell \<Rightarrow> world \<Rightarrow> cliOptions \<Rightarrow> nat option" where
  "action sh w options =
     (if toLowerCase (cli_format options) \<notin> set [''text'', ''json''] then Some 2
      else
        case fst (validateManifest w (validateOptions options)) of
          Never \<Rightarrow> None
        | Throws error \<Rightarrow> Some 2
        | Returns result \<Rightarrow>
            (let output = format sh result (cli_format options) in
             case writeOutput sh options output of
               Never \<Rightarrow> None
             | Throws error \<Rightarrow> Some 2
             | Returns _ \<Rightarrow>
                 if success result then Some 0
                 else
                   (let hasLoadingErrors = loadingErrors (stats result) > 0
                    in Some (if hasLoadingErrors then 2 else 1))))"

section \<open>The rule engine, as the design describes it\<close>

text \<open>
  Modelled from the spec: the rule engine that \<^verbatim>\<open>validators(...)\<close> starts is DocHub's
  \<^verbatim>\<open>src/global/rules/validators.mjs\<close>, which is not among the sources. The design
  describes it: the evaluator is an injected capability
  \<^verbatim>\<open>evaluate(expression, context) -> items | throws\<close>; each rule is evaluated
  independently; a rule that throws during evaluation is reported as a rule result with
  its \<^verbatim>\<open>error\<close> field populated and no items, or whatever items were produced before the
  failure; a rule that ends normally is reported with its items and no error. A rule
  whose evaluation never ends reports nothing.
\<close>

datatype evaluation = Produces "item list" | Fails exn "item list" | Hangs

record ruleRun =
  ruleId :: string
  ruleTitle :: string
  evaluated :: evaluation
  finishedAt :: nat

text \<open>
  Modelled from the spec: what the engine hands to its callbacks for one rule, the failure
  through \<^verbatim>\<open>reject\<close>, the normal outcome through \<^verbatim>\<open>success\<close>.
\<close>

definition reportRule :: "ruleRun \<Rightarrow> completion option" where
  "reportRule r =
     (case evaluated r of
        Produces its \<Rightarrow>
          Some \<lparr>arrival = finishedAt r, via = SuccessCallback,
                payload = \<lparr>rid = ruleId r, rtitle = ruleTitle r, ritems = Some its, rerror = None\<rparr>\<rparr>
      | Fails e its \<Rightarrow>
          Some \<lparr>arrival = finishedAt r, via = RejectCallback,
                payload = \<lparr>rid = ruleId r, rtitle = ruleTitle r, ritems = Some its,
                           rerror = Some (message e)\<rparr>\<rparr>
      | Hangs \<Rightarrow> None)"

text \<open>
  Modelled from the spec: the completions of a run of the engine over its rules, listed in
  the order in which the evaluations end.
\<close>

definition engineCompletions :: "ruleRun list \<Rightarrow> completion list" where
  "engineCompletions rs = List.map_filter reportRule rs"

definition eventOf :: "completion \<Rightarrow> event" where
  "eventOf c = Completion (via c) (payload c)"

section \<open>Vocabulary of the properties\<close>

text \<open>The results carried by a sequence of events, in the order of the events.\<close>

fun completedOf :: "event list \<Rightarrow> ruleResult list" where
  "completedOf [] = []"
| "completedOf (Completion k v # es) = v # completedOf es"
| "completedOf (TimerFired # es) = completedOf es"

text \<open>A rule result has at least one item; its id carries the diagnostic tag.\<close>

definition hasItems :: "ruleResult \<Rightarrow> bool" where
  "hasItems v = (case ritems v of None \<Rightarrow> False | Some xs \<Rightarrow> xs \<noteq> [])"

definition diagnosticTagged :: "ruleResult \<Rightarrow> bool" where
  "diagnosticTagged v = startsWith (rid v) ''$error''"

text \<open>The rule results and the load-time diagnostics among the problems of a report.\<close>

fun ruleResultsOf :: "problem list \<Rightarrow> ruleResult list" where
  "ruleResultsOf [] = []"
| "ruleResultsOf (ValidatorResult v # ps) = v # ruleResultsOf ps"
| "ruleResultsOf (p # ps) = ruleResultsOf ps"

text \<open>The completions that arrive before the ceiling.\<close>

definition arrivedInTime :: "completion list \<Rightarrow> completion list" where
  "arrivedInTime cs = takeWhile (\<lambda>c. arrival c < timeoutMs) cs"

text \<open>The two paths \<^verbatim>\<open>validateManifest\<close> resolves before anything else.\<close>

definition workspaceDirOf :: "world \<Rightarrow> options \<Rightarrow> string" where
  "workspaceDirOf w opts = pathResolve w [workspaceOf w opts]"

definition manifestPathOf :: "world \<Rightarrow> options \<Rightarrow> string" where
  "manifestPathOf w opts = pathResolve w [workspaceDirOf w opts, rootManifestOf opts]"

section \<open>Example runs\<close>

text \<open>
  A workspace \<^verbatim>\<open>/work\<close> with its \<^verbatim>\<open>dochub.yaml\<close>, the tool installed under
  \<^verbatim>\<open>/opt/archctl\<close> with DocHub as a submodule, two rules in the manifest, one fallback
  diagnostic in the error cache. The manifest declares the rule on descriptions first and
  the naming rule second; the naming rule finishes first, with one issue, the rule on
  descriptions second, with none.
\<close>

definition exampleResolve :: "string list \<Rightarrow> string" where
  "exampleResolve ps =
     (if ps = [''/work''] then ''/work''
      else if ps = [''/work'', ''dochub.yaml''] then ''/work/dochub.yaml''
      else if ps = [''/work'', ''absent.yaml''] then ''/work/absent.yaml''
      else if ps = [''/work'', ''arch.yaml''] then ''/work/arch.yaml''
      else if ps = [''/nowhere''] then ''/nowhere''
      else if ps = [''/nowhere'', ''dochub.yaml''] then ''/nowhere/dochub.yaml''
      else if ps = [''/opt/archctl/src'', ''../dochub''] then ''/opt/archctl/dochub''
      else if ps = [''/opt/archctl/src'', ''../node_modules/dochub'']
        then ''/opt/archctl/node_modules/dochub''
      else if ps = [''/opt/archctl/src'', ''../../DocHub''] then ''/opt/DocHub''
      else concat ps)"

definition namingResult :: ruleResult where
  "namingResult =
     \<lparr>rid = ''arch.naming'', rtitle = ''Naming convention'',
      ritems = Some [\<lparr>uid = ''n1'', ititle = ''Bad id'', location = ''/components/BadComponent''\<rparr>],
      rerror = None\<rparr>"

definition descriptionResult :: ruleResult where
  "descriptionResult =
     \<lparr>rid = ''arch.description'', rtitle = ''Missing description'',
      ritems = Some [], rerror = None\<rparr>"

definition failedResult :: ruleResult where
  "failedResult =
     \<lparr>rid = ''arch.broken'', rtitle = ''Broken rule'',
      ritems = Some [], rerror = Some ''Query failed''\<rparr>"

definition taggedResult :: ruleResult where
  "taggedResult =
     \<lparr>rid = ''$error.fallback'', rtitle = ''Fallback'',
      ritems = Some [\<lparr>uid = ''e1'', ititle = ''Not loaded'', location = ''/base.yaml''\<rparr>],
      rerror = None\<rparr>"

definition fallbackDiagnostic :: diagnostic where
  "fallbackDiagnostic =
     \<lparr>did = ''$error.base'', dmessage = ''base.yaml not found'', dkind = ''fetch''\<rparr>"

definition exampleManifest :: manifest where
  "exampleManifest =
     \<lparr>manifestFunctions = None,
      rulesValidators =
        Some [(''arch.description'', \<lparr>vtitle = ''Missing description'', vsource = ''q1''\<rparr>),
              (''arch.naming'', \<lparr>vtitle = ''Naming convention'', vsource = ''q2''\<rparr>)]\<rparr>"

definition exampleWorld :: world where
  "exampleWorld =
     \<lparr>cwd = ''/home/user'',
      dirname = ''/opt/archctl/src'',
      pathResolve = exampleResolve,
      existsSync = (\<lambda>p. p \<in> set [''/work'', ''/work/dochub.yaml'', ''/work/arch.yaml'',
                                   ''/opt/archctl/dochub'']),
      envRootManifest = None,
      stackTrace = ''at validateManifest'',
      importModule = (\<lambda>_. Returns ()),
      cacheErrorClear = Returns (),
      parserClean = Returns (),
      parserStartLoad = Returns (),
      parserImport = (\<lambda>_. Returns ()),
      parserCheckAwaitedPackages = Returns (),
      parserCheckLoaded = Returns (),
      parserStopLoad = Returns (),
      parserManifest = Some exampleManifest,
      entities = Returns (),
      cacheErrors = Some [(''base'', fallbackDiagnostic)],
      jsonataFunctions = Returns (),
      datasetsHelper = Returns (),
      validators = Returns (),
      completions = [\<lparr>arrival = 15, via = SuccessCallback, payload = namingResult\<rparr>,
                     \<lparr>arrival = 40, via = SuccessCallback, payload = descriptionResult\<rparr>]\<rparr>"

definition exampleOptions :: options where
  "exampleOptions =
     \<lparr>opt_workspace = Some ''/work'', opt_rootManifest = None, opt_verbose = None\<rparr>"

text \<open>The same run with a rule result that carries the diagnostic tag and has an item.\<close>

definition taggedWorld :: world where
  "taggedWorld =
     exampleWorld\<lparr>completions :=
       [\<lparr>arrival = 15, via = SuccessCallback, payload = descriptionResult\<rparr>,
        \<lparr>arrival = 40, via = SuccessCallback, payload = taggedResult\<rparr>]\<rparr>"

text \<open>
  The same run where one rule fails at once and the other one completes two seconds
  after the ceiling.
\<close>

definition hungWorld :: world where
  "hungWorld =
     exampleWorld\<lparr>completions :=
       [\<lparr>arrival = 15, via = RejectCallback, payload = failedResult\<rparr>,
        \<lparr>arrival = 12000, via = SuccessCallback, payload = namingResult\<rparr>]\<rparr>"

text \<open>The same run where the entity post-processor throws.\<close>

definition brokenWorld :: world where
  "brokenWorld =
     exampleWorld\<lparr>entities := Throws (JsError ''Cannot process entities'' ''at entities'')\<rparr>"

text \<open>The same run on a manifest without rules.\<close>

definition ruleFreeWorld :: world where
  "ruleFreeWorld =
     exampleWorld\<lparr>parserManifest := Some \<lparr>manifestFunctions = None, rulesValidators = None\<rparr>\<rparr>"

text \<open>The same workspace on a machine where no DocHub installation is found.\<close>

definition bareWorld :: world where
  "bareWorld =
     exampleWorld\<lparr>existsSync := (\<lambda>p. p \<in> set [''/work'', ''/work/dochub.yaml''])\<rparr>"

text \<open>A workspace directory that does not exist.\<close>

definition missingOptions :: options where
  "missingOptions =
     \<lparr>opt_workspace = Some ''/nowhere'', opt_rootManifest = None, opt_verbose = None\<rparr>"

text \<open>A root manifest that does not exist in the workspace.\<close>

definition absentOptions :: options where
  "absentOptions =
     \<lparr>opt_workspace = Some ''/work'', opt_rootManifest = Some ''absent.yaml'',
      opt_verbose = None\<rparr>"

text \<open>
  The command line on the rule-free run, once printing to the terminal and once writing
  into a directory that does not exist.
\<close>

definition exampleShell :: shell where
  "exampleShell =
     \<lparr>format = (\<lambda>r t. ''report''),
      writeFileSync = (\<lambda>file out. Throws (JsError ''ENOENT: no such file or directory'' ''at writeFileSync''))\<rparr>"

definition terminalOptions :: cliOptions where
  "terminalOptions =
     \<lparr>cli_workspace = ''/work'', cli_root = ''dochub.yaml'', cli_format = ''text'',
      cli_color = True, cli_verbose = False, cli_pretty = True, cli_output = None\<rparr>"

definition fileOptions :: cliOptions where
  "fileOptions = terminalOptions\<lparr>cli_output := Some ''/no/such/dir/report.json''\<rparr>"

definition exampleReport :: report where
  "exampleReport =
     \<lparr>success = False,
      manifest = \<lparr>loaded = True, path = ''/work/dochub.yaml'', workspace = ''/work''\<rparr>,
      problems = [LoadingError fallbackDiagnostic, ValidatorResult namingResult,
                  ValidatorResult descriptionResult],
      stats = \<lparr>totalIssues = 3, loadingErrors = 1, validationErrors = 1\<rparr>\<rparr>"

definition taggedReport :: report where
  "taggedReport =
     \<lparr>success = True,
      manifest = \<lparr>loaded = True, path = ''/work/dochub.yaml'', workspace = ''/work''\<rparr>,
      problems = [LoadingError fallbackDiagnostic, ValidatorResult descriptionResult,
                  ValidatorResult taggedResult],
      stats = \<lparr>totalIssues = 3, loadingErrors = 1, validationErrors = 0\<rparr>\<rparr>"

definition hungReport :: report where
  "hungReport =
     \<lparr>success = True,
      manifest = \<lparr>loaded = True, path = ''/work/dochub.yaml'', workspace = ''/work''\<rparr>,
      problems = [LoadingError fallbackDiagnostic, ValidatorResult failedResult],
      stats = \<lparr>totalIssues = 2, loadingErrors = 1, validationErrors = 0\<rparr>\<rparr>"

definition brokenReport :: report where
  "brokenReport =
     \<lparr>success = False,
      manifest = \<lparr>loaded = False, path = ''/work/dochub.yaml'', workspace = ''/work''\<rparr>,
      problems = [CriticalError \<lparr>cid = ''critical-error'', ctitle = ''Critical Error'',
                                 cerror = ''Cannot process entities'', cstack = None\<rparr>],
      stats = \<lparr>totalIssues = 1, loadingErrors = 1, validationErrors = 0\<rparr>\<rparr>"

definition ruleFreeReport :: report where
  "ruleFreeReport =
     \<lparr>success = True,
      manifest = \<lparr>loaded = True, path = ''/work/dochub.yaml'', workspace = ''/work''\<rparr>,
      problems = [LoadingError fallbackDiagnostic],
      stats = \<lparr>totalIssues = 1, loadingErrors = 1, validationErrors = 0\<rparr>\<rparr>"

text \<open>
  Three rules, of which the second one throws while it is evaluated; the workspace of the
  example with these three rules in its manifest and the engine above running them.
\<close>

definition exampleRuns :: "ruleRun list" where
  "exampleRuns =
     [\<lparr>ruleId = ''arch.naming'', ruleTitle = ''Naming convention'',
       evaluated = Produces [\<lparr>uid = ''n1'', ititle = ''Bad id'',
                               location = ''/components/BadComponent''\<rparr>],
       finishedAt = 15\<rparr>,
      \<lparr>ruleId = ''arch.broken'', ruleTitle = ''Broken rule'',
       evaluated = Fails (JsError ''Query failed'' ''at evaluate'') [],
       finishedAt = 20\<rparr>,
      \<lparr>ruleId = ''arch.description'', ruleTitle = ''Missing description'',
       evaluated = Produces [],
       finishedAt = 40\<rparr>]"

definition failingWorld :: world where
  "failingWorld =
     exampleWorld
       \<lparr>parserManifest := Some
          \<lparr>manifestFunctions = None,
           rulesValidators =
             Some [(''arch.broken'', \<lparr>vtitle = ''Broken rule'', vsource = ''q0''\<rparr>),
                   (''arch.description'', \<lparr>vtitle = ''Missing description'', vsource = ''q1''\<rparr>),
                   (''arch.naming'', \<lparr>vtitle = ''Naming convention'', vsource = ''q2''\<rparr>)]\<rparr>,
        completions := engineCompletions exampleRuns\<rparr>"

text \<open>The same workspace validated from another root manifest, named by the caller.\<close>

definition customOptions :: options where
  "customOptions =
     \<lparr>opt_workspace = Some ''/work'', opt_rootManifest = Some ''arch.yaml'',
      opt_verbose = Some True\<rparr>"

definition customReport :: report where
  "customReport =
     \<lparr>success = False,
      manifest = \<lparr>loaded = True, path = ''/work/arch.yaml'', workspace = ''/work''\<rparr>,
      problems = [LoadingError fallbackDiagnostic, ValidatorResult namingResult,
                  ValidatorResult descriptionResult],
      stats = \<lparr>totalIssues = 3, loadingErrors = 1, validationErrors = 1\<rparr>\<rparr>"

text \<open>The same run where the import of the root document never settles.\<close>

definition pendingWorld :: world where
  "pendingWorld = exampleWorld\<lparr>parserImport := (\<lambda>_. Never)\<rparr>"

text \<open>The same run where clearing the error cache throws.\<close>

definition staleWorld :: world where
  "staleWorld =
     exampleWorld\<lparr>cacheErrorClear := Throws (JsError ''Cache is locked'' ''at errorClear'')\<rparr>"

section \<open>Auxiliary facts\<close>

subsection \<open>Sequencing\<close>

lemma ret_simps [simp]: "fst (ret x) = Returns x" "snd (ret x) = []"
  by (simp_all add: ret_def)

lemma throw_simps [simp]: "fst (throw e) = Throws e" "snd (throw e) = []"
  by (simp_all add: throw_def)

lemma perform_simps [simp]: "fst (perform eff out) = out" "snd (perform eff out) = [eff]"
  by (simp_all add: perform_def)

lemma andThen_Returns_iff:
  "fst (andThen m f) = Returns y \<longleftrightarrow> (\<exists>x. fst m = Returns x \<and> fst (f x) = Returns y)"
  by (cases "fst m") (simp_all add: andThen_def)

lemma andThen_Throws_iff:
  "fst (andThen m f) = Throws e \<longleftrightarrow>
     fst m = Throws e \<or> (\<exists>x. fst m = Returns x \<and> fst (f x) = Throws e)"
  by (cases "fst m") (auto simp: andThen_def)

lemma andThen_Never_iff:
  "fst (andThen m f) = Never \<longleftrightarrow>
     fst m = Never \<or> (\<exists>x. fst m = Returns x \<and> fst (f x) = Never)"
  by (cases "fst m") (auto simp: andThen_def)

lemma andThen_Returns:
  "fst m = Returns x \<Longrightarrow> andThen m f = (fst (f x), snd m @ snd (f x))"
  by (simp add: andThen_def)

lemma andThen_Throws:
  "fst m = Throws e \<Longrightarrow> andThen m f = (Throws e, snd m)"
  by (simp add: andThen_def)

lemma andThen_Never:
  "fst m = Never \<Longrightarrow> andThen m f = (Never, snd m)"
  by (simp add: andThen_def)

lemma tryCatch_Returns: "fst m = Returns x \<Longrightarrow> tryCatch m h = m"
  by (simp add: tryCatch_def)

lemma tryCatch_Never: "fst m = Never \<Longrightarrow> tryCatch m h = m"
  by (simp add: tryCatch_def)

lemma tryCatch_Throws:
  "fst m = Throws e \<Longrightarrow> tryCatch m h = (fst (h e), snd m @ snd (h e))"
  by (simp add: tryCatch_def)

text \<open>Running a sequence whose first statement is known.\<close>

lemma andThen_eval:
  "andThen (Returns x, t) f = apsnd ((@) t) (f x)"
  "andThen (Throws e, t) f = (Throws e, t)"
  "andThen (Never, t) f = (Never, t)"
  by (simp_all add: andThen_def apsnd_def map_prod_def split_beta)

lemma tryCatch_eval:
  "tryCatch (Returns x, t) h = (Returns x, t)"
  "tryCatch (Throws e, t) h = apsnd ((@) t) (h e)"
  "tryCatch (Never, t) h = (Never, t)"
  by (simp_all add: tryCatch_def apsnd_def map_prod_def split_beta)

subsection \<open>The engine\<close>

lemma deliver_Completion: "deliver n (Completion k v) s = onValidatorComplete n v s"
  by (cases k) simp_all

lemma onValidatorComplete_results [simp]:
  "validatorResults (onValidatorComplete n v s) = validatorResults s @ [v]"
  by (simp add: onValidatorComplete_def resolve_def Let_def)

lemma onValidatorComplete_count [simp]:
  "completedCount (onValidatorComplete n v s) = completedCount s + 1"
  by (simp add: onValidatorComplete_def resolve_def Let_def)

lemma onValidatorComplete_resolved [simp]:
  "resolved (onValidatorComplete n v s) \<longleftrightarrow> resolved s \<or> n \<le> completedCount s + 1"
  by (simp add: onValidatorComplete_def resolve_def Let_def)

lemma onTimeout_results [simp]: "validatorResults (onTimeout n s) = validatorResults s"
  by (simp add: onTimeout_def resolve_def)

lemma onTimeout_count [simp]: "completedCount (onTimeout n s) = completedCount s"
  by (simp add: onTimeout_def resolve_def)

lemma onTimeout_resolved [simp]:
  "resolved (onTimeout n s) \<longleftrightarrow> resolved s \<or> completedCount s < n"
  by (simp add: onTimeout_def resolve_def)

lemma deliverAll_results:
  "validatorResults (deliverAll n es s) = validatorResults s @ completedOf es"
proof (induction es arbitrary: s)
  case Nil
  then show ?case by simp
next
  case (Cons e es)
  then show ?case by (cases e) (simp_all add: deliver_Completion)
qed

lemma deliverAll_count:
  "completedCount (deliverAll n es s) = completedCount s + length (completedOf es)"
proof (induction es arbitrary: s)
  case Nil
  then show ?case by simp
next
  case (Cons e es)
  then show ?case by (cases e) (simp_all add: deliver_Completion)
qed

lemma deliverAll_append: "deliverAll n (es @ fs) s = deliverAll n fs (deliverAll n es s)"
  by (induction es arbitrary: s) simp_all

lemma completedOf_append: "completedOf (es @ fs) = completedOf es @ completedOf fs"
  by (induction es rule: completedOf.induct) simp_all

lemma deliverAll_resolved:
  "(resolved s \<longleftrightarrow> n \<le> completedCount s \<or> t) \<Longrightarrow>
   (resolved (deliverAll n es s) \<longleftrightarrow>
      n \<le> completedCount s + length (completedOf es) \<or> t \<or> TimerFired \<in> set es)"
proof (induction es arbitrary: s t)
  case Nil
  then show ?case by simp
next
  case (Cons e es)
  show ?case
  proof (cases e)
    case (Completion k v)
    have "resolved (deliver n e s) \<longleftrightarrow> n \<le> completedCount (deliver n e s) \<or> t"
      using Cons.prems Completion by (auto simp: deliver_Completion)
    from Cons.IH[OF this] show ?thesis
      using Completion by (simp add: deliver_Completion)
  next
    case TimerFired
    have "resolved (deliver n e s) \<longleftrightarrow> n \<le> completedCount (deliver n e s) \<or> True"
      using Cons.prems TimerFired by auto
    from Cons.IH[OF this] show ?thesis
      using TimerFired by simp
  qed
qed

lemma awaitResolved_resolved [simp]: "resolved s \<Longrightarrow> awaitResolved n es s = Returns s"
  by (cases es) simp_all

lemma awaitResolved_timeline:
  "\<not> resolved s \<Longrightarrow> completedCount s < n \<Longrightarrow>
   \<exists>s'. awaitResolved n (timeline d cs) s = Returns s'
      \<and> resolved s'
      \<and> validatorResults s' =
          validatorResults s @ map payload (take (n - completedCount s) (takeWhile (\<lambda>c. arrival c < d) cs))
      \<and> completedCount s' =
          completedCount s + length (take (n - completedCount s) (takeWhile (\<lambda>c. arrival c < d) cs))"
proof (induction cs arbitrary: s)
  case Nil
  then show ?case by simp
next
  case (Cons c cs)
  show ?case
  proof (cases "arrival c < d")
    case False
    then show ?thesis using Cons.prems by simp
  next
    case True
    let ?s1 = "onValidatorComplete n (payload c) s"
    show ?thesis
    proof (cases "n \<le> completedCount s + 1")
      case enough: True
      then have "resolved ?s1" by simp
      moreover from enough Cons.prems have "n - completedCount s = Suc 0" by simp
      ultimately show ?thesis using True Cons.prems
        by (simp add: deliver_Completion)
    next
      case more: False
      then have a: "\<not> resolved ?s1" using Cons.prems by simp
      from more have b: "completedCount ?s1 < n" by simp
      define k where "k = n - completedCount ?s1"
      have k: "n - completedCount s = Suc k"
        using more by (simp add: k_def)
      from Cons.IH[OF a b] obtain s' where s':
        "awaitResolved n (timeline d cs) ?s1 = Returns s'" "resolved s'"
        "validatorResults s' =
           validatorResults ?s1 @ map payload (take k (takeWhile (\<lambda>c. arrival c < d) cs))"
        "completedCount s' =
           completedCount ?s1 + length (take k (takeWhile (\<lambda>c. arrival c < d) cs))"
        unfolding k_def by blast
      have "awaitResolved n (timeline d (c # cs)) s = Returns s'"
        using True Cons.prems s'(1) by (simp add: deliver_Completion)
      moreover have "take (n - completedCount s) (takeWhile (\<lambda>c. arrival c < d) (c # cs)) =
          c # take k (takeWhile (\<lambda>c. arrival c < d) cs)"
        using True by (simp add: k)
      ultimately show ?thesis using s'(2,3,4) by simp
    qed
  qed
qed

subsection \<open>The orchestration\<close>

lemma validateManifest_unfold:
  "validateManifest w opts =
     (if \<not> existsSync w (workspaceDirOf w opts)
      then throw (JsError (''Workspace directory not found: '' @ workspaceDirOf w opts) (stackTrace w))
      else if \<not> existsSync w (manifestPathOf w opts)
      then throw (JsError (''Root manifest not found: '' @ manifestPathOf w opts) (stackTrace w))
      else andThen (startSession w (workspaceDirOf w opts) (rootManifestOf opts)) (\<lambda>_.
           tryCatch (tryBlock w (verboseOf opts) (workspaceDirOf w opts) (manifestPathOf w opts))
                    (catchBlock (verboseOf opts) (workspaceDirOf w opts) (manifestPathOf w opts))))"
  by (simp add: validateManifest_def workspaceDirOf_def manifestPathOf_def Let_def)

lemma validationPromise_zero:
  "validationPromise w 0 =
     (Returns \<lparr>validatorResults = [], completedCount = 0, resolved = True\<rparr>, [])"
  by (simp add: validationPromise_def ret_def resolve_def initialEngine_def)

lemma validationPromise_pos:
  assumes "0 < n" and "validators w = Returns ()"
  shows "\<exists>eng. validationPromise w n = (Returns eng, [Validators, SetTimeout timeoutMs])
           \<and> resolved eng
           \<and> validatorResults eng = map payload (take n (arrivedInTime (completions w)))
           \<and> completedCount eng = length (take n (arrivedInTime (completions w)))"
proof -
  have "\<not> resolved initialEngine" "completedCount initialEngine < n"
    using assms(1) by (simp_all add: initialEngine_def)
  from awaitResolved_timeline[OF this, of timeoutMs "completions w"]
  obtain s' where s': "awaitResolved n (timeline timeoutMs (completions w)) initialEngine = Returns s'"
    "resolved s'"
    "validatorResults s' = map payload (take n (arrivedInTime (completions w)))"
    "completedCount s' = length (take n (arrivedInTime (completions w)))"
    by (auto simp: initialEngine_def arrivedInTime_def)
  have "validationPromise w n = (Returns s', [Validators, SetTimeout timeoutMs])"
    using assms s'(1) by (simp add: validationPromise_def perform_def andThen_eval)
  with s' show ?thesis by blast
qed

lemma validationPromise_Returns:
  assumes "fst (validationPromise w n) = Returns eng"
  shows "validatorResults eng = map payload (take n (arrivedInTime (completions w)))"
proof (cases "n = 0")
  case True
  with assms show ?thesis by (auto simp: validationPromise_zero)
next
  case False
  then have pos: "0 < n" by simp
  show ?thesis
  proof (cases "validators w")
    case (Returns u)
    then have "validators w = Returns ()" by simp
    from validationPromise_pos[OF pos this] assms show ?thesis by auto
  next
    case (Throws e)
    with assms False show ?thesis by (simp add: validationPromise_def perform_def andThen_eval)
  next
    case Never
    with assms False show ?thesis by (simp add: validationPromise_def perform_def andThen_eval)
  qed
qed

lemma validationPromise_Never_iff:
  "fst (validationPromise w n) = Never \<longleftrightarrow> n \<noteq> 0 \<and> validators w = Never"
proof (cases "n = 0")
  case True
  then show ?thesis by (simp add: validationPromise_zero)
next
  case False
  then have pos: "0 < n" by simp
  show ?thesis
  proof (cases "validators w")
    case (Returns u)
    then have "validators w = Returns ()" by simp
    from validationPromise_pos[OF pos this] Returns show ?thesis by auto
  next
    case (Throws e)
    with False show ?thesis by (simp add: validationPromise_def perform_def andThen_eval)
  next
    case Never
    with False show ?thesis by (simp add: validationPromise_def perform_def andThen_eval)
  qed
qed

lemma validationPromise_Throws_iff:
  "fst (validationPromise w n) = Throws e \<longleftrightarrow> n \<noteq> 0 \<and> validators w = Throws e"
proof (cases "n = 0")
  case True
  then show ?thesis by (simp add: validationPromise_zero)
next
  case False
  then have pos: "0 < n" by simp
  show ?thesis
  proof (cases "validators w")
    case (Returns u)
    then have "validators w = Returns ()" by simp
    from validationPromise_pos[OF pos this] Returns show ?thesis by auto
  next
    case (Throws e)
    with False show ?thesis by (simp add: validationPromise_def perform_def andThen_eval)
  next
    case Never
    with False show ?thesis by (simp add: validationPromise_def perform_def andThen_eval)
  qed
qed

text \<open>The report of the guarded block, from the load-time diagnostics and the engine state.\<close>

lemma tryBlock_Returns:
  assumes "fst (tryBlock w verbose wd mp) = Returns r"
  shows "\<exists>eng. fst (validationPromise w (countValidators (parserManifest w))) = Returns eng
     \<and> r = \<lparr>success = (length (filter realValidationIssue (validatorResults eng)) = 0),
             manifest = \<lparr>loaded = True, path = mp, workspace = wd\<rparr>,
             problems = map LoadingError (loadingProblems w) @ map ValidatorResult (validatorResults eng),
             stats = \<lparr>totalIssues = length (map LoadingError (loadingProblems w) @ map ValidatorResult (validatorResults eng)),
                      loadingErrors = length (loadingProblems w),
                      validationErrors = length (filter realValidationIssue (validatorResults eng))\<rparr>\<rparr>"
  using assms unfolding tryBlock_def Let_def
  by (auto simp: andThen_Returns_iff)

lemma validateManifest_Returns:
  assumes "fst (validateManifest w opts) = Returns r"
  shows "existsSync w (workspaceDirOf w opts) \<and> existsSync w (manifestPathOf w opts)
     \<and> fst (startSession w (workspaceDirOf w opts) (rootManifestOf opts)) = Returns ()
     \<and> (fst (tryBlock w (verboseOf opts) (workspaceDirOf w opts) (manifestPathOf w opts)) = Returns r
        \<or> (\<exists>e. fst (tryBlock w (verboseOf opts) (workspaceDirOf w opts) (manifestPathOf w opts)) = Throws e
              \<and> fst (catchBlock (verboseOf opts) (workspaceDirOf w opts) (manifestPathOf w opts) e) = Returns r))"
proof -
  let ?t = "tryBlock w (verboseOf opts) (workspaceDirOf w opts) (manifestPathOf w opts)"
  from assms have ex: "existsSync w (workspaceDirOf w opts)" "existsSync w (manifestPathOf w opts)"
    by (auto simp: validateManifest_unfold split: if_splits)
  with assms have a: "fst (andThen (startSession w (workspaceDirOf w opts) (rootManifestOf opts)) (\<lambda>_.
           tryCatch ?t (catchBlock (verboseOf opts) (workspaceDirOf w opts) (manifestPathOf w opts)))) = Returns r"
    by (simp add: validateManifest_unfold)
  then have s: "fst (startSession w (workspaceDirOf w opts) (rootManifestOf opts)) = Returns ()"
    and t: "fst (tryCatch ?t (catchBlock (verboseOf opts) (workspaceDirOf w opts) (manifestPathOf w opts))) = Returns r"
    by (auto simp: andThen_Returns_iff)
  from t have "fst ?t = Returns r \<or> (\<exists>e. fst ?t = Throws e
              \<and> fst (catchBlock (verboseOf opts) (workspaceDirOf w opts) (manifestPathOf w opts) e) = Returns r)"
    by (cases "fst ?t") (simp_all add: tryCatch_Returns tryCatch_Never tryCatch_Throws)
  with ex s show ?thesis by blast
qed

lemma ruleResultsOf_diagnostics [simp]: "ruleResultsOf (map LoadingError ds @ ps) = ruleResultsOf ps"
  by (induction ds) simp_all

lemma ruleResultsOf_results [simp]: "ruleResultsOf (map ValidatorResult vs) = vs"
  by (induction vs) simp_all

lemma realValidationIssue_iff: "realValidationIssue v \<longleftrightarrow> hasItems v \<and> \<not> diagnosticTagged v"
  by (simp add: realValidationIssue_def hasItems_def diagnosticTagged_def split: option.splits)

lemma catchBlock_Returns:
  "fst (catchBlock verbose wd mp e) = Returns r \<longleftrightarrow>
     r = \<lparr>success = False,
          manifest = \<lparr>loaded = False, path = mp, workspace = wd\<rparr>,
          problems = [CriticalError \<lparr>cid = ''critical-error'', ctitle = ''Critical Error'',
                                     cerror = message e,
                                     cstack = (if verbose then Some (stack e) else None)\<rparr>],
          stats = \<lparr>totalIssues = 1, loadingErrors = 1, validationErrors = 0\<rparr>\<rparr>"
  by (auto simp: catchBlock_def)

text \<open>A report with \<^verbatim>\<open>loaded: true\<close> comes from the guarded block, one without from the handler.\<close>

lemma normal_return:
  assumes "fst (validateManifest w opts) = Returns r" and "loaded (manifest r)"
  shows "fst (tryBlock w (verboseOf opts) (workspaceDirOf w opts) (manifestPathOf w opts)) = Returns r"
  using validateManifest_Returns[OF assms(1)] assms(2)
  by (auto simp: catchBlock_Returns)

lemma normal_report:
  assumes "fst (validateManifest w opts) = Returns r" and "loaded (manifest r)"
  shows "\<exists>eng. fst (validationPromise w (countValidators (parserManifest w))) = Returns eng
     \<and> success r = (length (filter realValidationIssue (validatorResults eng)) = 0)
     \<and> manifest r = \<lparr>loaded = True, path = manifestPathOf w opts, workspace = workspaceDirOf w opts\<rparr>
     \<and> problems r = map LoadingError (loadingProblems w) @ map ValidatorResult (validatorResults eng)
     \<and> totalIssues (stats r) = length (loadingProblems w) + length (validatorResults eng)
     \<and> loadingErrors (stats r) = length (loadingProblems w)
     \<and> validationErrors (stats r) = length (filter realValidationIssue (validatorResults eng))"
proof -
  from tryBlock_Returns[OF normal_return[OF assms]] obtain eng where
    e: "fst (validationPromise w (countValidators (parserManifest w))) = Returns eng"
    and r: "r = \<lparr>success = (length (filter realValidationIssue (validatorResults eng)) = 0),
             manifest = \<lparr>loaded = True, path = manifestPathOf w opts, workspace = workspaceDirOf w opts\<rparr>,
             problems = map LoadingError (loadingProblems w) @ map ValidatorResult (validatorResults eng),
             stats = \<lparr>totalIssues = length (map LoadingError (loadingProblems w) @ map ValidatorResult (validatorResults eng)),
                      loadingErrors = length (loadingProblems w),
                      validationErrors = length (filter realValidationIssue (validatorResults eng))\<rparr>\<rparr>"
    by blast
  show ?thesis
    by (rule exI[of _ eng]) (simp add: e r)
qed

subsection \<open>The example runs\<close>

lemmas run_defs =
  validateManifest_unfold workspaceDirOf_def manifestPathOf_def workspaceOf_def rootManifestOf_def
  verboseOf_def startSession_def initializeDocHubEnvironment_def getDocHubPath_def
  possiblePaths_def dochubModules_def tryBlock_def catchBlock_def loadManifest_def
  loadingProblems_def readFunctions_def countValidators_def validationPromise_def
  realValidationIssue_def startsWith_def timeoutMs_def initialEngine_def
  onValidatorComplete_def onTimeout_def resolve_def Let_def
  perform_def ret_def throw_def andThen_eval tryCatch_eval

lemmas example_defs =
  exampleWorld_def exampleOptions_def exampleResolve_def exampleManifest_def
  namingResult_def descriptionResult_def failedResult_def taggedResult_def
  fallbackDiagnostic_def

lemma exampleWorld_run:
  "validateManifest exampleWorld exampleOptions = (Returns exampleReport,
     [SetGlobalPaths ''/work'', SetGlobalListeners, SetGlobalRoles,
      SetEnvRootManifest ''dochub.yaml'', SetEnvRootManifest ''dochub.yaml'',
      ImportModule ''/opt/archctl/dochub/src/global/manifest/parser.mjs'',
      ImportModule ''/opt/archctl/dochub/src/backend/storage/cache.mjs'',
      ImportModule ''/opt/archctl/dochub/src/global/rules/validators.mjs'',
      ImportModule ''/opt/archctl/dochub/src/backend/helpers/datasets.mjs'',
      ImportModule ''/opt/archctl/dochub/src/backend/entities/entities.mjs'',
      ImportModule ''/opt/archctl/dochub/src/global/jsonata/driver.mjs'',
      ImportModule ''/opt/archctl/dochub/src/global/jsonata/functions.mjs'',
      AssignParserCache, AssignParserCallbacks, CacheErrorClear, ParserClean,
      ParserStartLoad, ParserImport ''file:///$root$'',
      ParserCheckAwaitedPackages, ParserCheckLoaded, ParserStopLoad, Entities,
      JsonataFunctions, AssignCustomFunctions, DatasetsHelper, Validators,
      SetTimeout 10000])"
  by (simp add: run_defs example_defs exampleReport_def)

lemma taggedWorld_run:
  "fst (validateManifest taggedWorld exampleOptions) = Returns taggedReport"
  by (simp add: run_defs example_defs taggedWorld_def taggedReport_def)

lemma hungWorld_run:
  "fst (validateManifest hungWorld exampleOptions) = Returns hungReport"
  by (simp add: run_defs example_defs hungWorld_def hungReport_def)

lemma brokenWorld_run:
  "fst (validateManifest brokenWorld exampleOptions) = Returns brokenReport"
  by (simp add: run_defs example_defs brokenWorld_def brokenReport_def)

lemma ruleFreeWorld_run:
  "validateManifest ruleFreeWorld exampleOptions = (Returns ruleFreeReport,
     [SetGlobalPaths ''/work'', SetGlobalListeners, SetGlobalRoles,
      SetEnvRootManifest ''dochub.yaml'', SetEnvRootManifest ''dochub.yaml'',
      ImportModule ''/opt/archctl/dochub/src/global/manifest/parser.mjs'',
      ImportModule ''/opt/archctl/dochub/src/backend/storage/cache.mjs'',
      ImportModule ''/opt/archctl/dochub/src/global/rules/validators.mjs'',
      ImportModule ''/opt/archctl/dochub/src/backend/helpers/datasets.mjs'',
      ImportModule ''/opt/archctl/dochub/src/backend/entities/entities.mjs'',
      ImportModule ''/opt/archctl/dochub/src/global/jsonata/driver.mjs'',
      ImportModule ''/opt/archctl/dochub/src/global/jsonata/functions.mjs'',
      AssignParserCache, AssignParserCallbacks, CacheErrorClear, ParserClean,
      ParserStartLoad, ParserImport ''file:///$root$'',
      ParserCheckAwaitedPackages, ParserCheckLoaded, ParserStopLoad, Entities,
      JsonataFunctions, AssignCustomFunctions, DatasetsHelper])"
  by (simp add: run_defs example_defs ruleFreeWorld_def ruleFreeReport_def)

lemma bareWorld_run:
  "validateManifest bareWorld exampleOptions =
     (Throws (JsError dochubNotFound ''at validateManifest''),
      [SetGlobalPaths ''/work'', SetGlobalListeners, SetGlobalRoles,
       SetEnvRootManifest ''dochub.yaml'', SetEnvRootManifest ''dochub.yaml''])"
  by (simp add: run_defs example_defs bareWorld_def)

lemma missing_run:
  "validateManifest exampleWorld missingOptions =
     (Throws (JsError ''Workspace directory not found: /nowhere'' ''at validateManifest''), [])"
  by (simp add: run_defs example_defs missingOptions_def)

section \<open>Pass or fail\<close>

text \<open>
  C1. When \<^verbatim>\<open>validateManifest\<close> returns on the normal path (the report says
  \<^verbatim>\<open>loaded: true\<close>), \<^verbatim>\<open>success\<close> is true if and only if no rule result in the report
  both has at least one item and has an id that does not start with \<^verbatim>\<open>$error\<close>. The
  rule results of the report are the engine's result list. A result with the diagnostic
  tag is not counted in \<^verbatim>\<open>validationErrors\<close> and does not make \<^verbatim>\<open>success\<close> false,
  whether or not it has items.
\<close>

theorem success_iff_no_real_issue:
  assumes "fst (validateManifest w opts) = Returns r" and "loaded (manifest r)"
  shows "(success r \<longleftrightarrow>
            \<not> (\<exists>v \<in> set (ruleResultsOf (problems r)). hasItems v \<and> \<not> diagnosticTagged v))
     \<and> (\<exists>eng. fst (validationPromise w (countValidators (parserManifest w))) = Returns eng
           \<and> ruleResultsOf (problems r) = validatorResults eng)
     \<and> validationErrors (stats r) =
         length (filter (\<lambda>v. hasItems v \<and> \<not> diagnosticTagged v) (ruleResultsOf (problems r)))
     \<and> ((\<forall>v \<in> set (ruleResultsOf (problems r)). hasItems v \<longrightarrow> diagnosticTagged v)
          \<longrightarrow> success r \<and> validationErrors (stats r) = 0)"
proof -
  from normal_report[OF assms] obtain eng where
    e: "fst (validationPromise w (countValidators (parserManifest w))) = Returns eng"
    and s: "success r = (length (filter realValidationIssue (validatorResults eng)) = 0)"
    and p: "problems r = map LoadingError (loadingProblems w) @ map ValidatorResult (validatorResults eng)"
    and v: "validationErrors (stats r) = length (filter realValidationIssue (validatorResults eng))"
    by blast
  have rr: "ruleResultsOf (problems r) = validatorResults eng"
    by (simp add: p)
  have f: "filter realValidationIssue (validatorResults eng) =
      filter (\<lambda>v. hasItems v \<and> \<not> diagnosticTagged v) (ruleResultsOf (problems r))"
    unfolding rr by (rule filter_cong) (simp_all add: realValidationIssue_iff)
  have a: "success r \<longleftrightarrow>
            \<not> (\<exists>v \<in> set (ruleResultsOf (problems r)). hasItems v \<and> \<not> diagnosticTagged v)"
    unfolding s f by (simp add: filter_empty_conv)
  have b: "validationErrors (stats r) =
         length (filter (\<lambda>v. hasItems v \<and> \<not> diagnosticTagged v) (ruleResultsOf (problems r)))"
    unfolding v f by simp
  have c: "(\<forall>v \<in> set (ruleResultsOf (problems r)). hasItems v \<longrightarrow> diagnosticTagged v)
          \<longrightarrow> success r \<and> validationErrors (stats r) = 0"
    unfolding a b by (auto simp: filter_empty_conv)
  from a b c e rr show ?thesis by blast
qed

theorem success_iff_no_real_issue_witness:
  "fst (validateManifest taggedWorld exampleOptions) = Returns taggedReport
   \<and> loaded (manifest taggedReport)
   \<and> taggedResult \<in> set (ruleResultsOf (problems taggedReport))
   \<and> hasItems taggedResult \<and> diagnosticTagged taggedResult
   \<and> success taggedReport
   \<and> validationErrors (stats taggedReport) = 0"
proof -
  have l: "loaded (manifest taggedReport)"
    by (simp add: taggedReport_def)
  have t: "taggedResult \<in> set (ruleResultsOf (problems taggedReport))"
    "hasItems taggedResult" "diagnosticTagged taggedResult"
    by (simp_all add: taggedReport_def taggedResult_def hasItems_def diagnosticTagged_def startsWith_def)
  have d: "\<forall>v \<in> set (ruleResultsOf (problems taggedReport)). hasItems v \<longrightarrow> diagnosticTagged v"
    by (simp add: taggedReport_def taggedResult_def descriptionResult_def hasItems_def
        diagnosticTagged_def startsWith_def)
  from success_iff_no_real_issue[OF taggedWorld_run l] d
  have "success taggedReport \<and> validationErrors (stats taggedReport) = 0"
    by blast
  with taggedWorld_run l t show ?thesis by blast
qed

section \<open>Report contents\<close>



section \<open>Runs without rules\<close>

subsection \<open>Which effects a run can have\<close>

lemma andThen_effects:
  "set (snd m) \<subseteq> A \<Longrightarrow> (\<And>x. set (snd (f x)) \<subseteq> A) \<Longrightarrow> set (snd (andThen m f)) \<subseteq> A"
  by (cases "fst m") (auto simp: andThen_def)

lemma tryCatch_effects:
  "set (snd m) \<subseteq> A \<Longrightarrow> (\<And>e. set (snd (h e)) \<subseteq> A) \<Longrightarrow> set (snd (tryCatch m h)) \<subseteq> A"
  by (cases "fst m") (auto simp: tryCatch_def)

lemma importAll_effects: "set (snd (importAll w ps)) \<subseteq> range ImportModule"
proof (induction ps)
  case Nil
  then show ?case by simp
next
  case (Cons p ps)
  have "set (snd (andThen (perform (ImportModule p) (importModule w p)) (\<lambda>_. importAll w ps)))
      \<subseteq> range ImportModule"
    by (rule andThen_effects) (use Cons in simp_all)
  then show ?case by simp
qed

lemma startSession_effects:
  "set (snd (startSession w wd rm)) \<subseteq> - ({Validators} \<union> range SetTimeout)"
proof -
  have i: "set (snd (importAll w ps)) \<subseteq> - ({Validators} \<union> range SetTimeout)" for ps
    using importAll_effects[of w ps] by auto
  show ?thesis
    unfolding startSession_def initializeDocHubEnvironment_def getDocHubPath_def Let_def
    by (intro andThen_effects i) (auto split: option.splits)
qed

lemma tryBlock_effects:
  assumes "countValidators (parserManifest w) = 0"
  shows "set (snd (tryBlock w verbose wd mp)) \<subseteq> - ({Validators} \<union> range SetTimeout)"
  unfolding tryBlock_def loadManifest_def readFunctions_def Let_def assms validationPromise_zero
  by (intro andThen_effects) (auto split: option.splits)

lemma validateManifest_effects:
  assumes "countValidators (parserManifest w) = 0"
  shows "set (snd (validateManifest w opts)) \<subseteq> - ({Validators} \<union> range SetTimeout)"
proof -
  let ?A = "- ({Validators} \<union> range SetTimeout)"
  have "set (snd (andThen (startSession w (workspaceDirOf w opts) (rootManifestOf opts)) (\<lambda>_.
           tryCatch (tryBlock w (verboseOf opts) (workspaceDirOf w opts) (manifestPathOf w opts))
                    (catchBlock (verboseOf opts) (workspaceDirOf w opts) (manifestPathOf w opts)))))
      \<subseteq> ?A"
    by (intro andThen_effects tryCatch_effects startSession_effects tryBlock_effects[OF assms])
      (simp add: catchBlock_def)
  then show ?thesis
    by (simp add: validateManifest_unfold)
qed

text \<open>
  C5. With no rule configured the promise is resolved by its executor: the result list is
  empty, the rule engine is not called and no timer is started, whatever the engine and
  the clock would have delivered. A run on a manifest without rules performs neither
  effect, and its report lists no rule result.
\<close>

theorem zero_rule_fast_path:
  "validationPromise w 0 =
     (Returns \<lparr>validatorResults = [], completedCount = 0, resolved = True\<rparr>, [])
   \<and> (countValidators (parserManifest w) = 0 \<longrightarrow>
        Validators \<notin> set (snd (validateManifest w opts))
        \<and> (\<forall>d. SetTimeout d \<notin> set (snd (validateManifest w opts)))
        \<and> (\<forall>r. fst (validateManifest w opts) = Returns r \<and> loaded (manifest r)
               \<longrightarrow> ruleResultsOf (problems r) = []))"
proof -
  {
    assume z: "countValidators (parserManifest w) = 0"
    have a: "Validators \<notin> set (snd (validateManifest w opts))"
      "\<forall>d. SetTimeout d \<notin> set (snd (validateManifest w opts))"
      using validateManifest_effects[OF z, of opts] by auto
    have "ruleResultsOf (problems r) = []"
      if "fst (validateManifest w opts) = Returns r" "loaded (manifest r)" for r
    proof -
      from normal_report[OF that] obtain eng where
        "fst (validationPromise w 0) = Returns eng"
        "problems r = map LoadingError (loadingProblems w) @ map ValidatorResult (validatorResults eng)"
        unfolding z by blast
      then show ?thesis by (auto simp: validationPromise_zero)
    qed
    with a have "Validators \<notin> set (snd (validateManifest w opts))
        \<and> (\<forall>d. SetTimeout d \<notin> set (snd (validateManifest w opts)))
        \<and> (\<forall>r. fst (validateManifest w opts) = Returns r \<and> loaded (manifest r)
               \<longrightarrow> ruleResultsOf (problems r) = [])"
      by blast
  }
  then show ?thesis by (simp add: validationPromise_zero)
qed

theorem zero_rule_fast_path_witness:
  "countValidators (parserManifest ruleFreeWorld) = 0
   \<and> fst (validateManifest ruleFreeWorld exampleOptions) = Returns ruleFreeReport
   \<and> loaded (manifest ruleFreeReport)
   \<and> Validators \<notin> set (snd (validateManifest ruleFreeWorld exampleOptions))
   \<and> SetTimeout 10000 \<notin> set (snd (validateManifest ruleFreeWorld exampleOptions))
   \<and> ruleResultsOf (problems ruleFreeReport) = []"
proof -
  have z: "countValidators (parserManifest ruleFreeWorld) = 0"
    by (simp add: ruleFreeWorld_def countValidators_def)
  have run: "fst (validateManifest ruleFreeWorld exampleOptions) = Returns ruleFreeReport"
    by (simp add: ruleFreeWorld_run)
  have l: "loaded (manifest ruleFreeReport)"
    by (simp add: ruleFreeReport_def)
  from zero_rule_fast_path[of ruleFreeWorld exampleOptions] z run l
  show ?thesis by blast
qed

section \<open>Collecting rule results\<close>

subsection \<open>Waiting and delivering\<close>

text \<open>The continuation sees the state after the shortest sequence of events that resolves.\<close>

lemma awaitResolved_prefix:
  "awaitResolved n es s = Returns s' \<Longrightarrow>
   \<exists>k \<le> length es. s' = deliverAll n (take k es) s \<and> resolved s'
      \<and> (\<forall>j < k. \<not> resolved (deliverAll n (take j es) s))"
proof (induction es arbitrary: s)
  case Nil
  then show ?case by (simp split: if_splits)
next
  case (Cons e es)
  show ?case
  proof (cases "resolved s")
    case True
    with Cons.prems have "s' = s" by simp
    with True show ?thesis by (intro exI[of _ 0]) simp
  next
    case False
    with Cons.prems have "awaitResolved n es (deliver n e s) = Returns s'" by simp
    from Cons.IH[OF this] obtain k where k: "k \<le> length es"
      "s' = deliverAll n (take k es) (deliver n e s)" "resolved s'"
      "\<forall>j < k. \<not> resolved (deliverAll n (take j es) (deliver n e s))"
      by blast
    have "\<not> resolved (deliverAll n (take j (e # es)) s)" if "j < Suc k" for j
      using that False k(4) by (cases j) simp_all
    with k(1,2,3) show ?thesis
      by (intro exI[of _ "Suc k"]) simp
  qed
qed

lemma timeline_via:
  "awaitResolved n (timeline d (map (\<lambda>c. c\<lparr>via := k\<rparr>) cs)) s = awaitResolved n (timeline d cs) s"
proof (induction cs arbitrary: s)
  case Nil
  then show ?case by simp
next
  case (Cons c cs)
  have "awaitResolved n (map (\<lambda>c. Completion (via c) (payload c)) (map (\<lambda>c. c\<lparr>via := k\<rparr>) ds)) t =
        awaitResolved n (map (\<lambda>c. Completion (via c) (payload c)) ds) t" for ds t
    by (induction ds arbitrary: t) (simp_all add: deliver_Completion)
  from this[of "c # cs"] Cons show ?case
    by (simp add: deliver_Completion)
qed

lemma validationPromise_via:
  "validationPromise (w\<lparr>completions := map (\<lambda>c. c\<lparr>via := k\<rparr>) (completions w)\<rparr>) n =
   validationPromise w n"
  by (simp add: validationPromise_def timeline_via)

text \<open>
  C8. The result list is in completion order: after any sequence of callback invocations
  the list holds the reported results in the order of the invocations, and the report
  lists the results that arrived before the promise resolved in their order of arrival.
  Nothing is sorted.
\<close>

theorem results_in_completion_order:
  "validatorResults (deliverAll n es initialEngine) = completedOf es
   \<and> (\<forall>r. fst (validateManifest w opts) = Returns r \<and> loaded (manifest r) \<longrightarrow>
          ruleResultsOf (problems r) =
            map payload (take (countValidators (parserManifest w)) (arrivedInTime (completions w))))"
proof -
  have "ruleResultsOf (problems r) =
      map payload (take (countValidators (parserManifest w)) (arrivedInTime (completions w)))"
    if "fst (validateManifest w opts) = Returns r" "loaded (manifest r)" for r
  proof -
    from normal_report[OF that] obtain eng where
      e: "fst (validationPromise w (countValidators (parserManifest w))) = Returns eng"
      and p: "problems r = map LoadingError (loadingProblems w) @ map ValidatorResult (validatorResults eng)"
      by blast
    from p have "ruleResultsOf (problems r) = validatorResults eng" by simp
    with validationPromise_Returns[OF e] show ?thesis by simp
  qed
  then show ?thesis
    by (simp add: deliverAll_results initialEngine_def)
qed

theorem results_in_completion_order_witness:
  "fst (validateManifest exampleWorld exampleOptions) = Returns exampleReport
   \<and> loaded (manifest exampleReport)
   \<and> map_option (map fst) (rulesValidators exampleManifest) =
       Some [''arch.description'', ''arch.naming'']
   \<and> map rid (ruleResultsOf (problems exampleReport)) = [''arch.naming'', ''arch.description'']"
proof -
  have run: "fst (validateManifest exampleWorld exampleOptions) = Returns exampleReport"
    by (simp add: exampleWorld_run)
  have l: "loaded (manifest exampleReport)"
    by (simp add: exampleReport_def)
  from results_in_completion_order[of _ _ exampleWorld exampleOptions] run l
  have "ruleResultsOf (problems exampleReport) =
      map payload (take (countValidators (parserManifest exampleWorld))
        (arrivedInTime (completions exampleWorld)))"
    by blast
  then have "map rid (ruleResultsOf (problems exampleReport)) = [''arch.naming'', ''arch.description'']"
    by (simp add: example_defs countValidators_def arrivedInTime_def timeoutMs_def)
  moreover have "map_option (map fst) (rulesValidators exampleManifest) =
      Some [''arch.description'', ''arch.naming'']"
    by (simp add: exampleManifest_def)
  ultimately show ?thesis using run l by blast
qed

section \<open>Waiting for the rules\<close>

lemma settled_iff:
  assumes "0 < n"
  shows "resolved (deliverAll n es initialEngine) \<longleftrightarrow>
           n \<le> length (completedOf es) \<or> TimerFired \<in> set es"
proof -
  have "resolved initialEngine \<longleftrightarrow> n \<le> completedCount initialEngine \<or> False"
    using assms by (simp add: initialEngine_def)
  from deliverAll_resolved[OF this, of es] show ?thesis
    by (simp add: initialEngine_def)
qed

text \<open>
  C3. With \<open>n > 0\<close> rules the promise is resolved exactly when \<open>n\<close> completions have been
  delivered (through either callback) or the timer has fired. The timer is the one started
  with 10000 ms right after the engine was called. The continuation gets the state after
  the shortest sequence of events that resolves the promise, and the result list is then
  the results that arrived before the ceiling, at most the first \<open>n\<close> of them: a rule that
  has not completed by then has no entry, and no entry is added for it.
\<close>

theorem wait_for_all_or_ceiling:
  assumes "0 < n"
  shows "(\<forall>es. resolved (deliverAll n es initialEngine) \<longleftrightarrow>
              n \<le> length (completedOf es) \<or> TimerFired \<in> set es)
     \<and> (validators w = Returns () \<longrightarrow>
          (\<exists>eng k. validationPromise w n = (Returns eng, [Validators, SetTimeout 10000])
             \<and> eng = deliverAll n (take k (timeline 10000 (completions w))) initialEngine
             \<and> (\<forall>j < k. \<not> resolved (deliverAll n (take j (timeline 10000 (completions w))) initialEngine))
             \<and> resolved eng
             \<and> validatorResults eng =
                 map payload (take n (takeWhile (\<lambda>c. arrival c < 10000) (completions w)))))"
proof -
  have "\<exists>eng k. validationPromise w n = (Returns eng, [Validators, SetTimeout 10000])
             \<and> eng = deliverAll n (take k (timeline 10000 (completions w))) initialEngine
             \<and> (\<forall>j < k. \<not> resolved (deliverAll n (take j (timeline 10000 (completions w))) initialEngine))
             \<and> resolved eng
             \<and> validatorResults eng =
                 map payload (take n (takeWhile (\<lambda>c. arrival c < 10000) (completions w)))"
    if v: "validators w = Returns ()"
  proof -
    from validationPromise_pos[OF assms v] obtain eng where
      e: "validationPromise w n = (Returns eng, [Validators, SetTimeout timeoutMs])"
      "resolved eng"
      "validatorResults eng = map payload (take n (arrivedInTime (completions w)))"
      by blast
    from e(1) have "awaitResolved n (timeline timeoutMs (completions w)) initialEngine = Returns eng"
      using assms v by (simp add: validationPromise_def perform_def andThen_eval)
    from awaitResolved_prefix[OF this] obtain k where
      k: "eng = deliverAll n (take k (timeline timeoutMs (completions w))) initialEngine"
      "\<forall>j < k. \<not> resolved (deliverAll n (take j (timeline timeoutMs (completions w))) initialEngine)"
      by blast
    from e k show ?thesis
      unfolding timeoutMs_def arrivedInTime_def by blast
  qed
  with settled_iff[OF assms] show ?thesis by blast
qed

theorem wait_for_all_or_ceiling_witness:
  "0 < (2::nat) \<and> validators hungWorld = Returns ()
   \<and> map arrival (completions hungWorld) = [15, 12000]
   \<and> (\<exists>eng. validationPromise hungWorld 2 = (Returns eng, [Validators, SetTimeout 10000])
        \<and> validatorResults eng = [failedResult])
   \<and> \<not> resolved (deliverAll 2 [Completion RejectCallback failedResult] initialEngine)
   \<and> resolved (deliverAll 2 [Completion RejectCallback failedResult, TimerFired] initialEngine)
   \<and> fst (validateManifest hungWorld exampleOptions) = Returns hungReport
   \<and> problems hungReport = [LoadingError fallbackDiagnostic, ValidatorResult failedResult]"
proof -
  have p: "0 < (2::nat)" by simp
  have v: "validators hungWorld = Returns ()"
    by (simp add: hungWorld_def exampleWorld_def)
  have c: "map arrival (completions hungWorld) = [15, 12000]"
    by (simp add: hungWorld_def)
  have t: "map payload (take 2 (takeWhile (\<lambda>c. arrival c < 10000) (completions hungWorld))) = [failedResult]"
    by (simp add: hungWorld_def)
  from wait_for_all_or_ceiling[OF p, of hungWorld] v t
  have a: "\<exists>eng. validationPromise hungWorld 2 = (Returns eng, [Validators, SetTimeout 10000])
        \<and> validatorResults eng = [failedResult]"
    by auto
  from wait_for_all_or_ceiling[OF p, of hungWorld]
  have s: "resolved (deliverAll 2 es initialEngine) \<longleftrightarrow>
      2 \<le> length (completedOf es) \<or> TimerFired \<in> set es" for es
    by blast
  have b: "\<not> resolved (deliverAll 2 [Completion RejectCallback failedResult] initialEngine)"
    "resolved (deliverAll 2 [Completion RejectCallback failedResult, TimerFired] initialEngine)"
    unfolding s by simp_all
  have r: "problems hungReport = [LoadingError fallbackDiagnostic, ValidatorResult failedResult]"
    by (simp add: hungReport_def)
  from p v c a b r hungWorld_run show ?thesis by blast
qed

section \<open>Failures\<close>

subsection \<open>When the guarded block throws or stays pending\<close>

lemma loadManifest_Throws_iff:
  "fst (loadManifest w) = Throws e \<longleftrightarrow>
     parserClean w = Throws e
   \<or> parserClean w = Returns () \<and> (parserStartLoad w = Throws e
   \<or> parserStartLoad w = Returns () \<and> (parserImport w ''file:///$root$'' = Throws e
   \<or> parserImport w ''file:///$root$'' = Returns () \<and> (parserCheckAwaitedPackages w = Throws e
   \<or> parserCheckAwaitedPackages w = Returns () \<and> (parserCheckLoaded w = Throws e
   \<or> parserCheckLoaded w = Returns () \<and> parserStopLoad w = Throws e))))"
  unfolding loadManifest_def
  by (simp add: andThen_Throws_iff)

lemma loadManifest_Never_iff:
  "fst (loadManifest w) = Never \<longleftrightarrow>
     parserClean w = Never
   \<or> parserClean w = Returns () \<and> (parserStartLoad w = Never
   \<or> parserStartLoad w = Returns () \<and> (parserImport w ''file:///$root$'' = Never
   \<or> parserImport w ''file:///$root$'' = Returns () \<and> (parserCheckAwaitedPackages w = Never
   \<or> parserCheckAwaitedPackages w = Returns () \<and> (parserCheckLoaded w = Never
   \<or> parserCheckLoaded w = Returns () \<and> parserStopLoad w = Never))))"
  unfolding loadManifest_def
  by (simp add: andThen_Never_iff)

lemma readFunctions_outcome:
  "fst (readFunctions w m) = Throws e \<longleftrightarrow>
     m = None \<and> e = JsError ''Cannot read properties of undefined (reading 'functions')'' (stackTrace w)"
  "(\<exists>fs. fst (readFunctions w m) = Returns fs) \<longleftrightarrow> m \<noteq> None"
  "fst (readFunctions w m) \<noteq> Never"
  by (auto simp: readFunctions_def split: option.splits)

lemma tryBlock_Throws_iff:
  "fst (tryBlock w verbose wd mp) = Throws e \<longleftrightarrow>
     fst (loadManifest w) = Throws e
   \<or> fst (loadManifest w) = Returns () \<and> (entities w = Throws e
   \<or> entities w = Returns () \<and> (fst (readFunctions w (parserManifest w)) = Throws e
   \<or> parserManifest w \<noteq> None \<and> (jsonataFunctions w = Throws e
   \<or> jsonataFunctions w = Returns () \<and> (datasetsHelper w = Throws e
   \<or> datasetsHelper w = Returns () \<and> countValidators (parserManifest w) \<noteq> 0
       \<and> validators w = Throws e))))"
  unfolding tryBlock_def Let_def
  by (simp add: andThen_Throws_iff validationPromise_Throws_iff readFunctions_outcome(2))

lemma tryBlock_Never_iff:
  "fst (tryBlock w verbose wd mp) = Never \<longleftrightarrow>
     fst (loadManifest w) = Never
   \<or> fst (loadManifest w) = Returns () \<and> (entities w = Never
   \<or> entities w = Returns () \<and> parserManifest w \<noteq> None \<and> (jsonataFunctions w = Never
   \<or> jsonataFunctions w = Returns () \<and> (datasetsHelper w = Never
   \<or> datasetsHelper w = Returns () \<and> countValidators (parserManifest w) \<noteq> 0
       \<and> validators w = Never)))"
  unfolding tryBlock_def Let_def
  by (simp add: andThen_Never_iff validationPromise_Never_iff readFunctions_outcome)

lemma validateManifest_guarded:
  assumes "existsSync w (workspaceDirOf w opts)" "existsSync w (manifestPathOf w opts)"
    and "fst (startSession w (workspaceDirOf w opts) (rootManifestOf opts)) = Returns ()"
  shows "fst (validateManifest w opts) =
     fst (tryCatch (tryBlock w (verboseOf opts) (workspaceDirOf w opts) (manifestPathOf w opts))
                   (catchBlock (verboseOf opts) (workspaceDirOf w opts) (manifestPathOf w opts)))"
  using assms by (simp add: validateManifest_unfold andThen_Returns)

text \<open>
  C2. A stage of the pipeline is reached once the two existence checks have passed and
  the session is set up. An exception thrown then by loading, by entity processing, by
  the set-up of the custom functions, by dataset building or by the call of the rule
  engine is not propagated: the guarded block throws exactly in these cases, and \<^verbatim>\<open>validateManifest\<close> then returns the degenerate
  report, with \<^verbatim>\<open>success\<close> false, \<^verbatim>\<open>loaded\<close> false, the single problem
  \<^verbatim>\<open>critical-error\<close> carrying the message, and the statistics 1, 1, 0.
\<close>

theorem exception_in_pipeline_gives_critical_report:
  assumes "existsSync w (workspaceDirOf w opts)" and "existsSync w (manifestPathOf w opts)"
    and "fst (startSession w (workspaceDirOf w opts) (rootManifestOf opts)) = Returns ()"
  shows "(fst (tryBlock w (verboseOf opts) (workspaceDirOf w opts) (manifestPathOf w opts)) = Throws e
          \<longleftrightarrow>
            fst (loadManifest w) = Throws e
          \<or> fst (loadManifest w) = Returns () \<and> (entities w = Throws e
          \<or> entities w = Returns () \<and> (fst (readFunctions w (parserManifest w)) = Throws e
          \<or> parserManifest w \<noteq> None \<and> (jsonataFunctions w = Throws e
          \<or> jsonataFunctions w = Returns () \<and> (datasetsHelper w = Throws e
          \<or> datasetsHelper w = Returns () \<and> countValidators (parserManifest w) \<noteq> 0
              \<and> validators w = Throws e)))))
     \<and> (fst (tryBlock w (verboseOf opts) (workspaceDirOf w opts) (manifestPathOf w opts)) = Throws e
          \<longrightarrow> fst (validateManifest w opts) = Returns
             \<lparr>success = False,
              manifest = \<lparr>loaded = False, path = manifestPathOf w opts,
                          workspace = workspaceDirOf w opts\<rparr>,
              problems = [CriticalError \<lparr>cid = ''critical-error'', ctitle = ''Critical Error'',
                                         cerror = message e,
                                         cstack = (if verboseOf opts then Some (stack e) else None)\<rparr>],
              stats = \<lparr>totalIssues = 1, loadingErrors = 1, validationErrors = 0\<rparr>\<rparr>)"
proof -
  let ?t = "tryBlock w (verboseOf opts) (workspaceDirOf w opts) (manifestPathOf w opts)"
  have "fst (validateManifest w opts) = Returns
             \<lparr>success = False,
              manifest = \<lparr>loaded = False, path = manifestPathOf w opts,
                          workspace = workspaceDirOf w opts\<rparr>,
              problems = [CriticalError \<lparr>cid = ''critical-error'', ctitle = ''Critical Error'',
                                         cerror = message e,
                                         cstack = (if verboseOf opts then Some (stack e) else None)\<rparr>],
              stats = \<lparr>totalIssues = 1, loadingErrors = 1, validationErrors = 0\<rparr>\<rparr>"
    if "fst ?t = Throws e"
    using that by (simp add: validateManifest_guarded[OF assms] tryCatch_Throws catchBlock_def)
  then show ?thesis
    using tryBlock_Throws_iff[of w "verboseOf opts" "workspaceDirOf w opts" "manifestPathOf w opts" e]
    by blast
qed

theorem exception_in_pipeline_gives_critical_report_witness:
  "existsSync brokenWorld (workspaceDirOf brokenWorld exampleOptions)
   \<and> existsSync brokenWorld (manifestPathOf brokenWorld exampleOptions)
   \<and> fst (startSession brokenWorld (workspaceDirOf brokenWorld exampleOptions)
            (rootManifestOf exampleOptions)) = Returns ()
   \<and> fst (loadManifest brokenWorld) = Returns ()
   \<and> entities brokenWorld = Throws (JsError ''Cannot process entities'' ''at entities'')
   \<and> fst (validateManifest brokenWorld exampleOptions) = Returns brokenReport"
proof -
  let ?e = "JsError ''Cannot process entities'' ''at entities''"
  have a: "existsSync brokenWorld (workspaceDirOf brokenWorld exampleOptions)"
    and b: "existsSync brokenWorld (manifestPathOf brokenWorld exampleOptions)"
    and c: "fst (startSession brokenWorld (workspaceDirOf brokenWorld exampleOptions)
            (rootManifestOf exampleOptions)) = Returns ()"
    and d: "fst (loadManifest brokenWorld) = Returns ()"
    and f: "entities brokenWorld = Throws ?e"
    by (simp_all add: run_defs example_defs brokenWorld_def)
  have g: "workspaceDirOf brokenWorld exampleOptions = ''/work''"
    "manifestPathOf brokenWorld exampleOptions = ''/work/dochub.yaml''"
    "verboseOf exampleOptions = False"
    by (simp_all add: run_defs example_defs brokenWorld_def)
  from exception_in_pipeline_gives_critical_report[OF a b c, of ?e] d f
  have "fst (validateManifest brokenWorld exampleOptions) = Returns brokenReport"
    by (simp add: g brokenReport_def)
  with a b c d f show ?thesis by blast
qed

section \<open>Exit codes\<close>

lemma ruleFreeWorld_cli_run:
  "fst (validateManifest ruleFreeWorld (validateOptions terminalOptions)) = Returns ruleFreeReport"
  "fst (validateManifest ruleFreeWorld (validateOptions fileOptions)) = Returns ruleFreeReport"
  by (simp_all add: run_defs example_defs ruleFreeWorld_def ruleFreeReport_def validateOptions_def
      terminalOptions_def fileOptions_def)

lemma toLowerCase_text: "toLowerCase ''text'' = ''text''"
  by (simp add: toLowerCase_def)

text \<open>
  C9. With a valid format option, the exit code follows from the report alone once the
  output has been written without an exception: 0 when \<^verbatim>\<open>success\<close> is true, otherwise
  2 when \<^verbatim>\<open>stats.loadingErrors\<close> is positive and 1 when it is not. The code is 2 when
  \<^verbatim>\<open>validateManifest\<close> throws, and also when writing the output throws, whatever the
  report says.
\<close>

theorem exit_code_from_report:
  assumes "toLowerCase (cli_format options) \<in> set [''text'', ''json'']"
  shows "(fst (validateManifest w (validateOptions options)) = Returns r
          \<and> writeOutput sh options (format sh r (cli_format options)) = Returns ()
          \<longrightarrow> action sh w options =
                Some (if success r then 0 else if loadingErrors (stats r) > 0 then 2 else 1))
     \<and> (fst (validateManifest w (validateOptions options)) = Returns r
          \<and> writeOutput sh options (format sh r (cli_format options)) = Throws e
          \<longrightarrow> action sh w options = Some 2)
     \<and> (fst (validateManifest w (validateOptions options)) = Throws e
          \<longrightarrow> action sh w options = Some 2)"
  using assms by (simp add: action_def Let_def)

theorem exit_code_from_report_witness:
  "toLowerCase (cli_format terminalOptions) \<in> set [''text'', ''json'']
   \<and> fst (validateManifest ruleFreeWorld (validateOptions terminalOptions)) = Returns ruleFreeReport
   \<and> writeOutput exampleShell terminalOptions
        (format exampleShell ruleFreeReport (cli_format terminalOptions)) = Returns ()
   \<and> success ruleFreeReport
   \<and> action exampleShell ruleFreeWorld terminalOptions = Some 0"
proof -
  have f: "toLowerCase (cli_format terminalOptions) \<in> set [''text'', ''json'']"
    by (simp add: terminalOptions_def toLowerCase_text)
  have o: "writeOutput exampleShell terminalOptions
        (format exampleShell ruleFreeReport (cli_format terminalOptions)) = Returns ()"
    by (simp add: writeOutput_def terminalOptions_def)
  have s: "success ruleFreeReport"
    by (simp add: ruleFreeReport_def)
  from exit_code_from_report[OF f, of ruleFreeWorld ruleFreeReport exampleShell]
    ruleFreeWorld_cli_run(1) o s
  have "action exampleShell ruleFreeWorld terminalOptions = Some 0"
    by simp
  with f ruleFreeWorld_cli_run(1) o s show ?thesis by blast
qed

theorem exit_code_solely_from_report_counterexample:
  "fst (validateManifest ruleFreeWorld (validateOptions fileOptions)) = Returns ruleFreeReport
   \<and> success ruleFreeReport
   \<and> action exampleShell ruleFreeWorld fileOptions = Some 2"
proof -
  have f: "toLowerCase (cli_format fileOptions) \<in> set [''text'', ''json'']"
    by (simp add: fileOptions_def terminalOptions_def toLowerCase_text)
  have o: "writeOutput exampleShell fileOptions
        (format exampleShell ruleFreeReport (cli_format fileOptions)) =
      Throws (JsError ''ENOENT: no such file or directory'' ''at writeFileSync'')"
    by (simp add: writeOutput_def fileOptions_def exampleShell_def)
  have "action exampleShell ruleFreeWorld fileOptions = Some 2"
    using f o ruleFreeWorld_cli_run(2) by (simp add: action_def Let_def)
  moreover have "success ruleFreeReport"
    by (simp add: ruleFreeReport_def)
  ultimately show ?thesis using ruleFreeWorld_cli_run(2) by blast
qed

section \<open>Identification of the manifest\<close>

lemma customOptions_run:
  "fst (validateManifest exampleWorld customOptions) = Returns customReport"
  by (simp add: run_defs example_defs customOptions_def customReport_def)

text \<open>
  C10. Every report that \<^verbatim>\<open>validateManifest\<close> returns carries the workspace option
  (the current directory when the caller gives none) resolved to a path, and the root
  manifest option (\<^verbatim>\<open>dochub.yaml\<close> when the caller gives none) resolved against that
  path; \<^verbatim>\<open>loaded\<close> is true exactly when the guarded block returned the report and false
  exactly when the block threw and the handler built it.
\<close>

theorem manifest_identification:
  assumes "fst (validateManifest w opts) = Returns r"
    and "wd = pathResolve w [case opt_workspace opts of None \<Rightarrow> cwd w | Some d \<Rightarrow> d]"
    and "mp = pathResolve w [wd, case opt_rootManifest opts of None \<Rightarrow> ''dochub.yaml'' | Some f \<Rightarrow> f]"
    and "v = (case opt_verbose opts of None \<Rightarrow> False | Some b \<Rightarrow> b)"
  shows "workspace (manifest r) = wd
     \<and> path (manifest r) = mp
     \<and> (loaded (manifest r) \<longleftrightarrow> fst (tryBlock w v wd mp) = Returns r)
     \<and> (\<not> loaded (manifest r) \<longleftrightarrow> (\<exists>e. fst (tryBlock w v wd mp) = Throws e))"
proof -
  have wd: "workspaceDirOf w opts = wd" and mp: "manifestPathOf w opts = mp"
    and v: "verboseOf opts = v"
    using assms(2,3,4)
    by (simp_all add: workspaceDirOf_def manifestPathOf_def workspaceOf_def rootManifestOf_def
        verboseOf_def)
  from validateManifest_Returns[OF assms(1)]
  consider (normal) "fst (tryBlock w v wd mp) = Returns r"
    | (caught) e where "fst (tryBlock w v wd mp) = Throws e"
      "fst (catchBlock v wd mp e) = Returns r"
    unfolding wd mp v by blast
  then show ?thesis
  proof cases
    case normal
    from tryBlock_Returns[OF normal] have
      "manifest r = \<lparr>loaded = True, path = mp, workspace = wd\<rparr>"
      by auto
    with normal show ?thesis by simp
  next
    case caught
    from caught(2) have "manifest r = \<lparr>loaded = False, path = mp, workspace = wd\<rparr>"
      by (simp add: catchBlock_Returns)
    with caught(1) show ?thesis by auto
  qed
qed

theorem manifest_identification_witness:
  "fst (validateManifest exampleWorld customOptions) = Returns customReport
   \<and> opt_workspace customOptions = Some ''/work''
   \<and> opt_rootManifest customOptions = Some ''arch.yaml''
   \<and> pathResolve exampleWorld [''/work''] = ''/work''
   \<and> pathResolve exampleWorld [''/work'', ''arch.yaml''] = ''/work/arch.yaml''
   \<and> workspace (manifest customReport) = ''/work''
   \<and> path (manifest customReport) = ''/work/arch.yaml''
   \<and> loaded (manifest customReport)
   \<and> fst (tryBlock exampleWorld True ''/work'' ''/work/arch.yaml'') = Returns customReport
   \<and> fst (validateManifest brokenWorld exampleOptions) = Returns brokenReport
   \<and> opt_rootManifest exampleOptions = None
   \<and> pathResolve brokenWorld [''/work'', ''dochub.yaml''] = ''/work/dochub.yaml''
   \<and> workspace (manifest brokenReport) = ''/work''
   \<and> path (manifest brokenReport) = ''/work/dochub.yaml''
   \<and> \<not> loaded (manifest brokenReport)
   \<and> (\<exists>e. fst (tryBlock brokenWorld False ''/work'' ''/work/dochub.yaml'') = Throws e)"
proof -
  have o: "opt_workspace customOptions = Some ''/work''"
    "opt_rootManifest customOptions = Some ''arch.yaml''"
    "opt_rootManifest exampleOptions = None"
    by (simp_all add: customOptions_def exampleOptions_def)
  have p: "pathResolve exampleWorld [''/work''] = ''/work''"
    "pathResolve exampleWorld [''/work'', ''arch.yaml''] = ''/work/arch.yaml''"
    "pathResolve brokenWorld [''/work'', ''dochub.yaml''] = ''/work/dochub.yaml''"
    by (simp_all add: brokenWorld_def exampleWorld_def exampleResolve_def)
  have c: "''/work'' = pathResolve exampleWorld
        [case opt_workspace customOptions of None \<Rightarrow> cwd exampleWorld | Some d \<Rightarrow> d]"
    "''/work/arch.yaml'' = pathResolve exampleWorld
        [''/work'', case opt_rootManifest customOptions of None \<Rightarrow> ''dochub.yaml'' | Some f \<Rightarrow> f]"
    "True = (case opt_verbose customOptions of None \<Rightarrow> False | Some b \<Rightarrow> b)"
    by (simp_all add: customOptions_def exampleWorld_def exampleResolve_def)
  have b: "''/work'' = pathResolve brokenWorld
        [case opt_workspace exampleOptions of None \<Rightarrow> cwd brokenWorld | Some d \<Rightarrow> d]"
    "''/work/dochub.yaml'' = pathResolve brokenWorld
        [''/work'', case opt_rootManifest exampleOptions of None \<Rightarrow> ''dochub.yaml'' | Some f \<Rightarrow> f]"
    "False = (case opt_verbose exampleOptions of None \<Rightarrow> False | Some b \<Rightarrow> b)"
    by (simp_all add: exampleOptions_def brokenWorld_def exampleWorld_def exampleResolve_def)
  have l: "loaded (manifest customReport)" "\<not> loaded (manifest brokenReport)"
    by (simp_all add: customReport_def brokenReport_def)
  from manifest_identification[OF customOptions_run c] l(1)
  have 1: "workspace (manifest customReport) = ''/work''"
    "path (manifest customReport) = ''/work/arch.yaml''"
    "fst (tryBlock exampleWorld True ''/work'' ''/work/arch.yaml'') = Returns customReport"
    by simp_all
  from manifest_identification[OF brokenWorld_run b] l(2)
  have 2: "workspace (manifest brokenReport) = ''/work''"
    "path (manifest brokenReport) = ''/work/dochub.yaml''"
    "\<exists>e. fst (tryBlock brokenWorld False ''/work'' ''/work/dochub.yaml'') = Throws e"
    by simp_all
  from customOptions_run brokenWorld_run o p l 1 2 show ?thesis by blast
qed

section \<open>One channel for success and failure\<close>

subsection \<open>The engine's reports\<close>

lemma deliverAll_eventOf_results:
  "validatorResults (deliverAll n (map eventOf cs) s) = validatorResults s @ map payload cs"
  by (induction cs arbitrary: s) (simp_all add: eventOf_def deliver_Completion)

lemma deliverAll_eventOf_count:
  "completedCount (deliverAll n (map eventOf cs) s) = completedCount s + length cs"
  by (induction cs arbitrary: s) (simp_all add: eventOf_def deliver_Completion)

lemma engineCompletions_Cons:
  "engineCompletions (r # rs) =
     (case reportRule r of None \<Rightarrow> engineCompletions rs | Some c \<Rightarrow> c # engineCompletions rs)"
  by (simp add: engineCompletions_def split: option.splits)

lemma engineCompletions_Nil [simp]: "engineCompletions [] = []"
  by (simp add: engineCompletions_def)

lemma length_engineCompletions:
  "length (engineCompletions rs) = length (filter (\<lambda>r. evaluated r \<noteq> Hangs) rs)"
  by (induction rs) (auto simp: engineCompletions_Cons reportRule_def split: evaluation.splits)

lemma reported_in_engineCompletions:
  "r \<in> set rs \<Longrightarrow> reportRule r = Some c \<Longrightarrow> c \<in> set (engineCompletions rs)"
  by (induction rs) (auto simp: engineCompletions_Cons split: option.splits)

lemma engineCompletions_arrival:
  "c \<in> set (engineCompletions rs) \<Longrightarrow> \<exists>r \<in> set rs. arrival c = finishedAt r"
  by (induction rs)
    (auto simp: engineCompletions_Cons reportRule_def split: option.splits evaluation.splits)

text \<open>
  C4. Success and failure go through one channel. The reject callback is the success
  callback. A rule that throws during evaluation is reported by the engine through
  reject, and is then in the result list as a rule result with its id, the items
  produced before the failure and its error field populated with the message; it is
  counted like a rule that ended normally, so the completed count is the number of
  rules that ended either way. The result of every rule that ended normally is in the
  list whatever the other rules did. When every rule ends before the ceiling the promise
  resolves to exactly these results, in the order in which the rules ended, and what it
  resolves to never depends on which of the two callbacks the engine used.
\<close>

theorem single_completion_channel:
  "deliver n (Completion RejectCallback v) s = deliver n (Completion SuccessCallback v) s
   \<and> validatorResults (deliver n (Completion RejectCallback v) s) = validatorResults s @ [v]
   \<and> completedCount (deliver n (Completion RejectCallback v) s) = completedCount s + 1
   \<and> completedCount (deliver n (Completion SuccessCallback v) s) = completedCount s + 1
   \<and> validationPromise (w\<lparr>completions := map (\<lambda>c. c\<lparr>via := SuccessCallback\<rparr>) (completions w)\<rparr>) n =
       validationPromise w n
   \<and> validatorResults (deliverAll n (map eventOf (engineCompletions rs)) initialEngine) =
       map payload (engineCompletions rs)
   \<and> completedCount (deliverAll n (map eventOf (engineCompletions rs)) initialEngine) =
       length (filter (\<lambda>r. evaluated r \<noteq> Hangs) rs)
   \<and> (\<forall>r \<in> set rs. \<forall>e its. evaluated r = Fails e its \<longrightarrow>
         \<lparr>rid = ruleId r, rtitle = ruleTitle r, ritems = Some its, rerror = Some (message e)\<rparr>
           \<in> set (validatorResults (deliverAll n (map eventOf (engineCompletions rs)) initialEngine)))
   \<and> (\<forall>r \<in> set rs. \<forall>its. evaluated r = Produces its \<longrightarrow>
         \<lparr>rid = ruleId r, rtitle = ruleTitle r, ritems = Some its, rerror = None\<rparr>
           \<in> set (validatorResults (deliverAll n (map eventOf (engineCompletions rs)) initialEngine)))
   \<and> (rs \<noteq> [] \<and> validators w = Returns () \<and> completions w = engineCompletions rs
       \<and> (\<forall>r \<in> set rs. finishedAt r < 10000) \<longrightarrow>
         (\<exists>eng. fst (validationPromise w (length rs)) = Returns eng
            \<and> validatorResults eng = map payload (engineCompletions rs)
            \<and> (\<forall>r \<in> set rs. \<forall>e its. evaluated r = Fails e its \<longrightarrow>
                 \<lparr>rid = ruleId r, rtitle = ruleTitle r, ritems = Some its,
                  rerror = Some (message e)\<rparr> \<in> set (validatorResults eng))))"
proof -
  let ?res = "validatorResults (deliverAll n (map eventOf (engineCompletions rs)) initialEngine)"
  have res: "?res = map payload (engineCompletions rs)"
    by (simp add: deliverAll_eventOf_results initialEngine_def)
  have cnt: "completedCount (deliverAll n (map eventOf (engineCompletions rs)) initialEngine) =
       length (filter (\<lambda>r. evaluated r \<noteq> Hangs) rs)"
    by (simp add: deliverAll_eventOf_count initialEngine_def length_engineCompletions)
  have failed: "\<lparr>rid = ruleId r, rtitle = ruleTitle r, ritems = Some its, rerror = Some (message e)\<rparr>
      \<in> set (map payload (engineCompletions rs))"
    if "r \<in> set rs" "evaluated r = Fails e its" for r e its
  proof -
    have "reportRule r = Some \<lparr>arrival = finishedAt r, via = RejectCallback,
        payload = \<lparr>rid = ruleId r, rtitle = ruleTitle r, ritems = Some its,
                   rerror = Some (message e)\<rparr>\<rparr>"
      using that(2) by (simp add: reportRule_def)
    from reported_in_engineCompletions[OF that(1) this] show ?thesis
      by force
  qed
  have ended: "\<lparr>rid = ruleId r, rtitle = ruleTitle r, ritems = Some its, rerror = None\<rparr>
      \<in> set (map payload (engineCompletions rs))"
    if "r \<in> set rs" "evaluated r = Produces its" for r its
  proof -
    have "reportRule r = Some \<lparr>arrival = finishedAt r, via = SuccessCallback,
        payload = \<lparr>rid = ruleId r, rtitle = ruleTitle r, ritems = Some its, rerror = None\<rparr>\<rparr>"
      using that(2) by (simp add: reportRule_def)
    from reported_in_engineCompletions[OF that(1) this] show ?thesis
      by force
  qed
  have awaited: "\<exists>eng. fst (validationPromise w (length rs)) = Returns eng
            \<and> validatorResults eng = map payload (engineCompletions rs)
            \<and> (\<forall>r \<in> set rs. \<forall>e its. evaluated r = Fails e its \<longrightarrow>
                 \<lparr>rid = ruleId r, rtitle = ruleTitle r, ritems = Some its,
                  rerror = Some (message e)\<rparr> \<in> set (validatorResults eng))"
    if h: "rs \<noteq> []" "validators w = Returns ()" "completions w = engineCompletions rs"
      "\<forall>r \<in> set rs. finishedAt r < 10000"
  proof -
    from h(1) have pos: "0 < length rs" by simp
    from validationPromise_pos[OF pos h(2)] obtain eng where
      e: "fst (validationPromise w (length rs)) = Returns eng"
      "validatorResults eng = map payload (take (length rs) (arrivedInTime (completions w)))"
      by auto
    have "\<forall>c \<in> set (engineCompletions rs). arrival c < timeoutMs"
    proof
      fix c assume "c \<in> set (engineCompletions rs)"
      from engineCompletions_arrival[OF this] obtain r where "r \<in> set rs" "arrival c = finishedAt r"
        by blast
      with h(4) show "arrival c < timeoutMs" by (simp add: timeoutMs_def)
    qed
    then have "arrivedInTime (engineCompletions rs) = engineCompletions rs"
      by (simp add: arrivedInTime_def takeWhile_eq_all_conv)
    moreover have "length (engineCompletions rs) \<le> length rs"
      by (simp add: length_engineCompletions)
    ultimately have "validatorResults eng = map payload (engineCompletions rs)"
      using e(2) h(3) by simp
    with e(1) failed show ?thesis by auto
  qed
  have same: "deliver n (Completion RejectCallback v) s = deliver n (Completion SuccessCallback v) s
   \<and> validatorResults (deliver n (Completion RejectCallback v) s) = validatorResults s @ [v]
   \<and> completedCount (deliver n (Completion RejectCallback v) s) = completedCount s + 1
   \<and> completedCount (deliver n (Completion SuccessCallback v) s) = completedCount s + 1
   \<and> validationPromise (w\<lparr>completions := map (\<lambda>c. c\<lparr>via := SuccessCallback\<rparr>) (completions w)\<rparr>) n =
       validationPromise w n"
    by (simp add: validationPromise_via)
  from same res cnt failed ended awaited show ?thesis
    unfolding res by blast
qed

theorem single_completion_channel_witness:
  "exampleRuns \<noteq> [] \<and> validators failingWorld = Returns ()
   \<and> completions failingWorld = engineCompletions exampleRuns
   \<and> map finishedAt exampleRuns = [15, 20, 40]
   \<and> map (\<lambda>r. (ruleId r, evaluated r)) exampleRuns =
       [(''arch.naming'', Produces [\<lparr>uid = ''n1'', ititle = ''Bad id'',
                                       location = ''/components/BadComponent''\<rparr>]),
        (''arch.broken'', Fails (JsError ''Query failed'' ''at evaluate'') []),
        (''arch.description'', Produces [])]
   \<and> countValidators (parserManifest failingWorld) = length exampleRuns
   \<and> (\<exists>eng. fst (validationPromise failingWorld (length exampleRuns)) = Returns eng
         \<and> validatorResults eng = [namingResult, failedResult, descriptionResult])
   \<and> failedResult = \<lparr>rid = ''arch.broken'', rtitle = ''Broken rule'', ritems = Some [],
                        rerror = Some ''Query failed''\<rparr>
   \<and> completedCount (deliverAll 3 (map eventOf (engineCompletions exampleRuns)) initialEngine) = 3"
proof -
  have a: "exampleRuns \<noteq> []" "validators failingWorld = Returns ()"
    "completions failingWorld = engineCompletions exampleRuns"
    "\<forall>r \<in> set exampleRuns. finishedAt r < 10000"
    by (simp_all add: exampleRuns_def failingWorld_def exampleWorld_def)
  have b: "map (\<lambda>r. (ruleId r, evaluated r)) exampleRuns =
       [(''arch.naming'', Produces [\<lparr>uid = ''n1'', ititle = ''Bad id'',
                                       location = ''/components/BadComponent''\<rparr>]),
        (''arch.broken'', Fails (JsError ''Query failed'' ''at evaluate'') []),
        (''arch.description'', Produces [])]"
    "countValidators (parserManifest failingWorld) = length exampleRuns"
    "failedResult = \<lparr>rid = ''arch.broken'', rtitle = ''Broken rule'', ritems = Some [],
                        rerror = Some ''Query failed''\<rparr>"
    by (simp_all add: exampleRuns_def failingWorld_def countValidators_def failedResult_def)
  have c: "map payload (engineCompletions exampleRuns) =
      [namingResult, failedResult, descriptionResult]"
    by (simp add: exampleRuns_def engineCompletions_Cons reportRule_def namingResult_def
        failedResult_def descriptionResult_def)
  have d: "length (filter (\<lambda>r. evaluated r \<noteq> Hangs) exampleRuns) = 3"
    by (simp add: exampleRuns_def)
  from single_completion_channel[of 3 _ _ failingWorld exampleRuns] a
  have "\<exists>eng. fst (validationPromise failingWorld (length exampleRuns)) = Returns eng
         \<and> validatorResults eng = map payload (engineCompletions exampleRuns)"
    by blast
  moreover from single_completion_channel[of 3 _ _ failingWorld exampleRuns]
  have "completedCount (deliverAll 3 (map eventOf (engineCompletions exampleRuns)) initialEngine) =
      length (filter (\<lambda>r. evaluated r \<noteq> Hangs) exampleRuns)"
    by blast
  moreover have "map finishedAt exampleRuns = [15, 20, 40]"
    by (simp add: exampleRuns_def)
  ultimately show ?thesis using a(1,2,3) b unfolding c d by blast
qed

section \<open>Setting up and failing\<close>

subsection \<open>Setting up the session\<close>

lemma importAll_outcome:
  "fst (importAll w ps) = Returns () \<longleftrightarrow> (\<forall>p \<in> set ps. importModule w p = Returns ())"
  "fst (importAll w ps) = Throws e \<longleftrightarrow>
     (\<exists>ps1 p ps2. ps = ps1 @ p # ps2 \<and> (\<forall>x \<in> set ps1. importModule w x = Returns ())
        \<and> importModule w p = Throws e)"
proof (induction ps)
  case Nil
  {
    case 1
    show ?case by simp
  next
    case 2
    show ?case by simp
  }
next
  case (Cons q qs)
  {
    case 1
    show ?case using Cons(1) by (simp add: andThen_Returns_iff)
  next
    case 2
    show ?case
    proof
      assume "fst (importAll w (q # qs)) = Throws e"
      then consider "importModule w q = Throws e"
        | "importModule w q = Returns ()" "fst (importAll w qs) = Throws e"
        by (auto simp: andThen_Throws_iff)
      then show "\<exists>ps1 p ps2. q # qs = ps1 @ p # ps2
          \<and> (\<forall>x \<in> set ps1. importModule w x = Returns ()) \<and> importModule w p = Throws e"
      proof cases
        case 1
        then show ?thesis by (intro exI[of _ "[]"] exI[of _ q] exI[of _ qs]) simp
      next
        case 2
        with Cons(2) obtain ps1 p ps2 where
          "qs = ps1 @ p # ps2" "\<forall>x \<in> set ps1. importModule w x = Returns ()"
          "importModule w p = Throws e"
          by blast
        with 2(1) show ?thesis
          by (intro exI[of _ "q # ps1"] exI[of _ p] exI[of _ ps2]) simp
      qed
    next
      assume "\<exists>ps1 p ps2. q # qs = ps1 @ p # ps2
          \<and> (\<forall>x \<in> set ps1. importModule w x = Returns ()) \<and> importModule w p = Throws e"
      then obtain ps1 p ps2 where h: "q # qs = ps1 @ p # ps2"
        "\<forall>x \<in> set ps1. importModule w x = Returns ()" "importModule w p = Throws e"
        by blast
      show "fst (importAll w (q # qs)) = Throws e"
      proof (cases ps1)
        case Nil
        with h show ?thesis by (simp add: andThen_Throws_iff)
      next
        case (Cons a as)
        with h have "q = a" "qs = as @ p # ps2" "importModule w q = Returns ()"
          "\<forall>x \<in> set as. importModule w x = Returns ()"
          by simp_all
        with h(3) Cons.IH(2) have "fst (importAll w qs) = Throws e" by blast
        with \<open>importModule w q = Returns ()\<close> show ?thesis
          by (simp add: andThen_Throws_iff)
      qed
    qed
  }
qed

lemma initializeDocHubEnvironment_Returns:
  "fst (initializeDocHubEnvironment w wd) = Returns ()"
  by (simp add: initializeDocHubEnvironment_def Let_def perform_def ret_def andThen_eval)

lemma startSession_outcome:
  "fst (startSession w wd rm) =
     (case find (existsSync w) (possiblePaths w) of
        None \<Rightarrow> Throws (JsError dochubNotFound (stackTrace w))
      | Some p \<Rightarrow>
          (case fst (importAll w (map (\<lambda>m. p @ m) dochubModules)) of
             Returns u \<Rightarrow> cacheErrorClear w
           | Throws e \<Rightarrow> Throws e
           | Never \<Rightarrow> Never))"
proof -
  have a: "fst (andThen (initializeDocHubEnvironment w wd) f) = fst (f ())" for f :: "unit \<Rightarrow> unit proc"
    using initializeDocHubEnvironment_Returns[of w wd] by (simp add: andThen_Returns)
  have b: "fst (andThen (perform eff (Returns ())) f) = fst (f ())"
    for f :: "unit \<Rightarrow> unit proc" and eff
    by (simp add: perform_def andThen_eval)
  show ?thesis
    unfolding startSession_def a b getDocHubPath_def
    by (cases "find (existsSync w) (possiblePaths w)")
      (auto simp: throw_def ret_def andThen_eval perform_def andThen_def split: outcome.splits)
qed

section \<open>Rejecting, raising, reporting\<close>

lemma validateManifest_after_checks:
  assumes "existsSync w (workspaceDirOf w opts)" "existsSync w (manifestPathOf w opts)"
  shows "fst (validateManifest w opts) =
     (case fst (startSession w (workspaceDirOf w opts) (rootManifestOf opts)) of
        Returns u \<Rightarrow>
          fst (tryCatch (tryBlock w (verboseOf opts) (workspaceDirOf w opts) (manifestPathOf w opts))
                        (catchBlock (verboseOf opts) (workspaceDirOf w opts) (manifestPathOf w opts)))
      | Throws e \<Rightarrow> Throws e
      | Never \<Rightarrow> Never)"
  using assms by (simp add: validateManifest_unfold andThen_def split: outcome.splits)

text \<open>
  C7. A workspace directory or a root manifest that does not exist is rejected before
  anything else happens: the error names the resolved path and the run has no effect at
  all. For every other input the outcome depends on the set-up of the session, which is
  not guarded: when DocHub is found in none of its three places the DocHub-not-found
  error is raised, when the import of one of its modules throws or clearing the error
  cache throws that error is raised, and only when the set-up completes does the run
  reach the guarded block. From there a report is returned unless a call of the block
  stays pending, in which case \<^verbatim>\<open>validateManifest\<close> stays pending too; the block stays
  pending exactly when the first of its calls that does not return never settles. The
  report is well formed: it names the two resolved paths and counts its problems.
\<close>

theorem eager_rejection_then_report:
  assumes "wd = pathResolve w [case opt_workspace opts of None \<Rightarrow> cwd w | Some d \<Rightarrow> d]"
    and "mp = pathResolve w [wd, case opt_rootManifest opts of None \<Rightarrow> ''dochub.yaml'' | Some f \<Rightarrow> f]"
    and "v = (case opt_verbose opts of None \<Rightarrow> False | Some b \<Rightarrow> b)"
  shows "(\<not> existsSync w wd \<longrightarrow>
      validateManifest w opts =
        (Throws (JsError (''Workspace directory not found: '' @ wd) (stackTrace w)), []))
   \<and> (existsSync w wd \<and> \<not> existsSync w mp \<longrightarrow>
      validateManifest w opts =
        (Throws (JsError (''Root manifest not found: '' @ mp) (stackTrace w)), []))
   \<and> (existsSync w wd \<and> existsSync w mp \<longrightarrow>
        (find (existsSync w) (possiblePaths w) = None \<longrightarrow>
           fst (validateManifest w opts) = Throws (JsError dochubNotFound (stackTrace w)))
      \<and> (\<forall>p. find (existsSync w) (possiblePaths w) = Some p \<longrightarrow>
           (\<forall>ms1 m ms2 e. dochubModules = ms1 @ m # ms2
                \<and> (\<forall>x \<in> set ms1. importModule w (p @ x) = Returns ())
                \<and> importModule w (p @ m) = Throws e
              \<longrightarrow> fst (validateManifest w opts) = Throws e)
         \<and> ((\<forall>m \<in> set dochubModules. importModule w (p @ m) = Returns ()) \<longrightarrow>
              (\<forall>e. cacheErrorClear w = Throws e \<longrightarrow> fst (validateManifest w opts) = Throws e)
            \<and> (cacheErrorClear w = Returns () \<longrightarrow>
                 (fst (tryBlock w v wd mp) = Never \<longrightarrow> fst (validateManifest w opts) = Never)
               \<and> (fst (tryBlock w v wd mp) \<noteq> Never \<longrightarrow>
                    (\<exists>r. fst (validateManifest w opts) = Returns r
                       \<and> workspace (manifest r) = wd
                       \<and> path (manifest r) = mp
                       \<and> totalIssues (stats r) = length (problems r)))))))
   \<and> (fst (tryBlock w v wd mp) = Never \<longleftrightarrow>
          fst (loadManifest w) = Never
        \<or> fst (loadManifest w) = Returns () \<and> (entities w = Never
        \<or> entities w = Returns () \<and> parserManifest w \<noteq> None \<and> (jsonataFunctions w = Never
        \<or> jsonataFunctions w = Returns () \<and> (datasetsHelper w = Never
        \<or> datasetsHelper w = Returns () \<and> countValidators (parserManifest w) \<noteq> 0
            \<and> validators w = Never))))
   \<and> (fst (loadManifest w) = Never \<longleftrightarrow>
          parserClean w = Never
        \<or> parserClean w = Returns () \<and> (parserStartLoad w = Never
        \<or> parserStartLoad w = Returns () \<and> (parserImport w ''file:///$root$'' = Never
        \<or> parserImport w ''file:///$root$'' = Returns () \<and> (parserCheckAwaitedPackages w = Never
        \<or> parserCheckAwaitedPackages w = Returns () \<and> (parserCheckLoaded w = Never
        \<or> parserCheckLoaded w = Returns () \<and> parserStopLoad w = Never)))))"
proof -
  have wd: "workspaceDirOf w opts = wd" and mp: "manifestPathOf w opts = mp"
    and v: "verboseOf opts = v"
    using assms
    by (simp_all add: workspaceDirOf_def manifestPathOf_def workspaceOf_def rootManifestOf_def
        verboseOf_def)
  let ?s = "startSession w wd (rootManifestOf opts)"
  have rejected: "\<not> existsSync w wd \<longrightarrow>
      validateManifest w opts =
        (Throws (JsError (''Workspace directory not found: '' @ wd) (stackTrace w)), [])"
    "existsSync w wd \<and> \<not> existsSync w mp \<longrightarrow>
      validateManifest w opts =
        (Throws (JsError (''Root manifest not found: '' @ mp) (stackTrace w)), [])"
    using wd mp by (simp_all add: validateManifest_unfold throw_def)
  have missing: "fst (validateManifest w opts) = Throws (JsError dochubNotFound (stackTrace w))"
    if "existsSync w wd" "existsSync w mp" "find (existsSync w) (possiblePaths w) = None"
    using that validateManifest_after_checks[of w opts] unfolding wd mp v
    by (simp add: startSession_outcome)
  have import_failed: "fst (validateManifest w opts) = Throws e"
    if g: "existsSync w wd" "existsSync w mp" and p: "find (existsSync w) (possiblePaths w) = Some p"
      and i: "dochubModules = ms1 @ m # ms2" "\<forall>x \<in> set ms1. importModule w (p @ x) = Returns ()"
        "importModule w (p @ m) = Throws e"
    for p ms1 m ms2 e
  proof -
    have "map (\<lambda>m. p @ m) dochubModules =
        map (\<lambda>m. p @ m) ms1 @ (p @ m) # map (\<lambda>m. p @ m) ms2"
      by (simp add: i(1))
    moreover have "\<forall>x \<in> set (map (\<lambda>m. p @ m) ms1). importModule w x = Returns ()"
      using i(2) by simp
    ultimately have "fst (importAll w (map (\<lambda>m. p @ m) dochubModules)) = Throws e"
      using i(3) unfolding importAll_outcome(2) by blast
    then show ?thesis
      using g p validateManifest_after_checks[of w opts] unfolding wd mp v
      by (simp add: startSession_outcome)
  qed
  have imported: "fst ?s = cacheErrorClear w"
    if "find (existsSync w) (possiblePaths w) = Some p"
      "\<forall>m \<in> set dochubModules. importModule w (p @ m) = Returns ()" for p
  proof -
    have "fst (importAll w (map (\<lambda>m. p @ m) dochubModules)) = Returns ()"
      using that(2) unfolding importAll_outcome(1) by simp
    with that(1) show ?thesis by (simp add: startSession_outcome)
  qed
  have clear_failed: "fst (validateManifest w opts) = Throws e"
    if "existsSync w wd" "existsSync w mp" "find (existsSync w) (possiblePaths w) = Some p"
      "\<forall>m \<in> set dochubModules. importModule w (p @ m) = Returns ()" "cacheErrorClear w = Throws e"
    for p e
    using that(1,2,5) imported[OF that(3,4)] validateManifest_after_checks[of w opts]
    unfolding wd mp v by simp
  have guarded: "fst (validateManifest w opts) =
      fst (tryCatch (tryBlock w v wd mp) (catchBlock v wd mp))"
    if "existsSync w wd" "existsSync w mp" "find (existsSync w) (possiblePaths w) = Some p"
      "\<forall>m \<in> set dochubModules. importModule w (p @ m) = Returns ()" "cacheErrorClear w = Returns ()"
    for p
    using that(1,2,5) imported[OF that(3,4)] validateManifest_after_checks[of w opts]
    unfolding wd mp v by simp
  have pending: "fst (validateManifest w opts) = Never"
    if "existsSync w wd" "existsSync w mp" "find (existsSync w) (possiblePaths w) = Some p"
      "\<forall>m \<in> set dochubModules. importModule w (p @ m) = Returns ()" "cacheErrorClear w = Returns ()"
      "fst (tryBlock w v wd mp) = Never"
    for p
    using that(6) by (simp add: guarded[OF that(1-5)] tryCatch_Never)
  have reported: "\<exists>r. fst (validateManifest w opts) = Returns r
                       \<and> workspace (manifest r) = wd
                       \<and> path (manifest r) = mp
                       \<and> totalIssues (stats r) = length (problems r)"
    if h: "existsSync w wd" "existsSync w mp" "find (existsSync w) (possiblePaths w) = Some p"
      "\<forall>m \<in> set dochubModules. importModule w (p @ m) = Returns ()" "cacheErrorClear w = Returns ()"
      and n: "fst (tryBlock w v wd mp) \<noteq> Never"
    for p
  proof (cases "fst (tryBlock w v wd mp)")
    case (Returns r)
    from tryBlock_Returns[OF Returns] have
      "workspace (manifest r) = wd \<and> path (manifest r) = mp
       \<and> totalIssues (stats r) = length (problems r)"
      by auto
    moreover have "fst (validateManifest w opts) = Returns r"
      using Returns by (simp add: guarded[OF h] tryCatch_Returns)
    ultimately show ?thesis by blast
  next
    case (Throws e)
    then show ?thesis
      by (simp add: guarded[OF h] tryCatch_Throws catchBlock_def)
  next
    case Never
    with n show ?thesis by simp
  qed
  note never = tryBlock_Never_iff[of w v wd mp] loadManifest_Never_iff[of w]
  show ?thesis
    apply (intro conjI impI allI)
    subgoal using rejected(1) by blast
    subgoal using rejected(2) by blast
    subgoal using missing by blast
    subgoal using import_failed by blast
    subgoal using clear_failed by blast
    subgoal using pending by blast
    subgoal using reported by blast
    subgoal using never(1) by blast
    subgoal using never(2) by blast
    done
qed

lemma pendingWorld_run:
  "fst (validateManifest pendingWorld exampleOptions) = Never"
  by (simp add: run_defs example_defs pendingWorld_def)

lemma staleWorld_run:
  "fst (validateManifest staleWorld exampleOptions) =
     Throws (JsError ''Cache is locked'' ''at errorClear'')"
  by (simp add: run_defs example_defs staleWorld_def)

theorem eager_rejection_then_report_witness:
  "\<not> existsSync exampleWorld ''/nowhere''
   \<and> validateManifest exampleWorld missingOptions =
       (Throws (JsError ''Workspace directory not found: /nowhere'' ''at validateManifest''), [])
   \<and> existsSync exampleWorld ''/work'' \<and> \<not> existsSync exampleWorld ''/work/absent.yaml''
   \<and> validateManifest exampleWorld absentOptions =
       (Throws (JsError ''Root manifest not found: /work/absent.yaml'' ''at validateManifest''), [])
   \<and> existsSync exampleWorld ''/work/dochub.yaml''
   \<and> find (existsSync exampleWorld) (possiblePaths exampleWorld) = Some ''/opt/archctl/dochub''
   \<and> (\<exists>r. fst (validateManifest exampleWorld exampleOptions) = Returns r
         \<and> workspace (manifest r) = ''/work'' \<and> path (manifest r) = ''/work/dochub.yaml''
         \<and> totalIssues (stats r) = length (problems r))
   \<and> find (existsSync bareWorld) (possiblePaths bareWorld) = None
   \<and> fst (validateManifest bareWorld exampleOptions) =
       Throws (JsError dochubNotFound ''at validateManifest'')
   \<and> cacheErrorClear staleWorld = Throws (JsError ''Cache is locked'' ''at errorClear'')
   \<and> fst (validateManifest staleWorld exampleOptions) =
       Throws (JsError ''Cache is locked'' ''at errorClear'')
   \<and> parserImport pendingWorld ''file:///$root$'' = Never
   \<and> fst (validateManifest pendingWorld exampleOptions) = Never"
proof -
  let ?lock = "JsError ''Cache is locked'' ''at errorClear''"
  have world_defs: "pathResolve exampleWorld = exampleResolve"
    "pathResolve bareWorld = exampleResolve" "pathResolve staleWorld = exampleResolve"
    "pathResolve pendingWorld = exampleResolve"
    "stackTrace exampleWorld = ''at validateManifest''"
    "stackTrace bareWorld = ''at validateManifest''"
    by (simp_all add: exampleWorld_def bareWorld_def staleWorld_def pendingWorld_def)
  have m: "''/nowhere'' = pathResolve exampleWorld
        [case opt_workspace missingOptions of None \<Rightarrow> cwd exampleWorld | Some d \<Rightarrow> d]"
    "''/nowhere/dochub.yaml'' = pathResolve exampleWorld
        [''/nowhere'', case opt_rootManifest missingOptions of None \<Rightarrow> ''dochub.yaml'' | Some f \<Rightarrow> f]"
    "False = (case opt_verbose missingOptions of None \<Rightarrow> False | Some b \<Rightarrow> b)"
    by (simp_all add: world_defs missingOptions_def exampleResolve_def)
  have a: "''/work'' = pathResolve exampleWorld
        [case opt_workspace absentOptions of None \<Rightarrow> cwd exampleWorld | Some d \<Rightarrow> d]"
    "''/work/absent.yaml'' = pathResolve exampleWorld
        [''/work'', case opt_rootManifest absentOptions of None \<Rightarrow> ''dochub.yaml'' | Some f \<Rightarrow> f]"
    "False = (case opt_verbose absentOptions of None \<Rightarrow> False | Some b \<Rightarrow> b)"
    by (simp_all add: world_defs absentOptions_def exampleResolve_def)
  have e: "''/work'' = pathResolve W
        [case opt_workspace exampleOptions of None \<Rightarrow> cwd W | Some d \<Rightarrow> d]"
    "''/work/dochub.yaml'' = pathResolve W
        [''/work'', case opt_rootManifest exampleOptions of None \<Rightarrow> ''dochub.yaml'' | Some f \<Rightarrow> f]"
    "False = (case opt_verbose exampleOptions of None \<Rightarrow> False | Some b \<Rightarrow> b)"
    if "pathResolve W = exampleResolve" for W
    using that by (simp_all add: exampleOptions_def exampleResolve_def)
  have x: "\<not> existsSync exampleWorld ''/nowhere''" "existsSync exampleWorld ''/work''"
    "\<not> existsSync exampleWorld ''/work/absent.yaml''" "existsSync exampleWorld ''/work/dochub.yaml''"
    "existsSync bareWorld ''/work''" "existsSync bareWorld ''/work/dochub.yaml''"
    "existsSync staleWorld ''/work''" "existsSync staleWorld ''/work/dochub.yaml''"
    "existsSync pendingWorld ''/work''" "existsSync pendingWorld ''/work/dochub.yaml''"
    by (simp_all add: exampleWorld_def bareWorld_def staleWorld_def pendingWorld_def)
  have f: "find (existsSync exampleWorld) (possiblePaths exampleWorld) = Some ''/opt/archctl/dochub''"
    "find (existsSync staleWorld) (possiblePaths staleWorld) = Some ''/opt/archctl/dochub''"
    "find (existsSync pendingWorld) (possiblePaths pendingWorld) = Some ''/opt/archctl/dochub''"
    "find (existsSync bareWorld) (possiblePaths bareWorld) = None"
    by (simp_all add: possiblePaths_def exampleWorld_def bareWorld_def staleWorld_def
        pendingWorld_def exampleResolve_def)
  have i: "\<forall>m \<in> set dochubModules. importModule exampleWorld (''/opt/archctl/dochub'' @ m) = Returns ()"
    "\<forall>m \<in> set dochubModules. importModule staleWorld (''/opt/archctl/dochub'' @ m) = Returns ()"
    "\<forall>m \<in> set dochubModules. importModule pendingWorld (''/opt/archctl/dochub'' @ m) = Returns ()"
    by (simp_all add: exampleWorld_def staleWorld_def pendingWorld_def)
  have c: "cacheErrorClear exampleWorld = Returns ()" "cacheErrorClear staleWorld = Throws ?lock"
    "cacheErrorClear pendingWorld = Returns ()"
    by (simp_all add: exampleWorld_def staleWorld_def pendingWorld_def)
  have n: "fst (tryBlock exampleWorld False ''/work'' ''/work/dochub.yaml'') \<noteq> Never"
    by (simp add: tryBlock_Never_iff loadManifest_Never_iff exampleWorld_def)
  have pi: "parserImport pendingWorld ''file:///$root$'' = Never"
    "parserClean pendingWorld = Returns ()" "parserStartLoad pendingWorld = Returns ()"
    by (simp_all add: pendingWorld_def exampleWorld_def)
  from eager_rejection_then_report[OF m] x(1)
  have 1: "validateManifest exampleWorld missingOptions =
       (Throws (JsError ''Workspace directory not found: /nowhere'' ''at validateManifest''), [])"
    by (simp add: world_defs)
  from eager_rejection_then_report[OF a] x(2,3)
  have 2: "validateManifest exampleWorld absentOptions =
       (Throws (JsError ''Root manifest not found: /work/absent.yaml'' ''at validateManifest''), [])"
    by (simp add: world_defs)
  from eager_rejection_then_report[OF e[OF world_defs(1)]] x(2,4) f(1) i(1) c(1) n
  have 3: "\<exists>r. fst (validateManifest exampleWorld exampleOptions) = Returns r
         \<and> workspace (manifest r) = ''/work'' \<and> path (manifest r) = ''/work/dochub.yaml''
         \<and> totalIssues (stats r) = length (problems r)"
    by blast
  from eager_rejection_then_report[OF e[OF world_defs(2)]] x(5,6) f(4)
  have 4: "fst (validateManifest bareWorld exampleOptions) =
       Throws (JsError dochubNotFound ''at validateManifest'')"
    by (simp add: world_defs)
  from eager_rejection_then_report[OF e[OF world_defs(3)]] x(7,8) f(2) i(2) c(2)
  have 5: "fst (validateManifest staleWorld exampleOptions) = Throws ?lock"
    by blast
  from eager_rejection_then_report[OF e[OF world_defs(4)]] pi
  have "fst (tryBlock pendingWorld False ''/work'' ''/work/dochub.yaml'') = Never"
    by simp
  with eager_rejection_then_report[OF e[OF world_defs(4)]] x(9,10) f(3) i(3) c(3)
  have 6: "fst (validateManifest pendingWorld exampleOptions) = Never"
    by blast
  from x(1-4) f(1,4) c(2) pi(1) 1 2 3 4 5 6 show ?thesis by blast
qed

theorem report_for_every_other_input_counterexample:
  "opt_workspace exampleOptions = Some ''/work'' \<and> opt_rootManifest exampleOptions = None
   \<and> pathResolve bareWorld [''/work''] = ''/work''
   \<and> pathResolve bareWorld [''/work'', ''dochub.yaml''] = ''/work/dochub.yaml''
   \<and> existsSync bareWorld ''/work'' \<and> existsSync bareWorld ''/work/dochub.yaml''
   \<and> fst (validateManifest bareWorld exampleOptions) =
       Throws (JsError dochubNotFound ''at validateManifest'')
   \<and> pathResolve pendingWorld [''/work''] = ''/work''
   \<and> pathResolve pendingWorld [''/work'', ''dochub.yaml''] = ''/work/dochub.yaml''
   \<and> existsSync pendingWorld ''/work'' \<and> existsSync pendingWorld ''/work/dochub.yaml''
   \<and> fst (validateManifest pendingWorld exampleOptions) = Never"
  by (simp add: bareWorld_run pendingWorld_run)
    (simp add: example_defs bareWorld_def pendingWorld_def)

end
